theory Spec2Isabelle
  imports Complex_Main "HOL-Library.AList" "HOL-Library.Word"
begin

section \<open>Python values used by the dispatcher\<close>

text \<open>
  The authorization core of \<^verbatim>\<open>py.py\<close> (lines 28 to 262, and the start-up code of
  \<^verbatim>\<open>BotCreatorOS.__init__\<close>, lines 704 to 736) is embedded as HOL functions.
  A Python \<^verbatim>\<open>str\<close> is a \<^typ>\<open>string\<close>; a \<^typ>\<open>char\<close> stands for the code point of the
  same number, so the strings of the model are the Python strings whose code points lie
  below 256. An exception that leaves a function is the \<open>Inl\<close> branch of its result.
  Writing \<^verbatim>\<open>users.json\<close> and the audit log are effects on files that the core never
  reads back; they are left out, and a store operation is its effect on the dictionary.
\<close>

datatype py_exception =
    ValueError string
  | TypeError string
  | OverflowError string
  | Fault string

text \<open>\<^verbatim>\<open>str(e)\<close>, as the f-string \<^verbatim>\<open>f"error: {e}"\<close> renders an exception.\<close>

fun exc_message :: "py_exception \<Rightarrow> string" where
  "exc_message (ValueError m) = m"
| "exc_message (TypeError m) = m"
| "exc_message (OverflowError m) = m"
| "exc_message (Fault m) = m"

text \<open>\<^verbatim>\<open>sep.join(xs)\<close>.\<close>

fun join :: "string \<Rightarrow> string list \<Rightarrow> string" where
  "join sep [] = []"
| "join sep [x] = x"
| "join sep (x # y # ys) = x @ sep @ join sep (y # ys)"

text \<open>\<^verbatim>\<open>s.split(c)\<close> for a separator of one character.\<close>

fun split_on :: "char \<Rightarrow> string \<Rightarrow> string list" where
  "split_on c [] = [[]]"
| "split_on c (x # xs) =
     (if x = c then [] # split_on c xs
      else (case split_on c xs of
              [] \<Rightarrow> [[x]]
            | w # ws \<Rightarrow> (x # w) # ws))"

text \<open>A piece of text between single quotes, as in \<^verbatim>\<open>f"'{name}'"\<close>.\<close>

definition sq :: "string \<Rightarrow> string" where
  "sq s = CHR 0x27 # s @ [CHR 0x27]"

subsection \<open>Integers as text\<close>

definition digit_char :: "nat \<Rightarrow> char" where
  "digit_char n = char_of (48 + n mod 10)"

fun str_nat :: "nat \<Rightarrow> string" where
  "str_nat n = (if n < 10 then [digit_char n] else str_nat (n div 10) @ [digit_char n])"

declare str_nat.simps [simp del]

text \<open>\<^verbatim>\<open>str(n)\<close> of an \<^verbatim>\<open>int\<close>, as the f-string \<^verbatim>\<open>f"{ttl}"\<close> renders it.\<close>

definition str_int :: "int \<Rightarrow> string" where
  "str_int i = (if i < 0 then CHR ''-'' # str_nat (nat (- i)) else str_nat (nat i))"

definition is_digit :: "char \<Rightarrow> bool" where
  "is_digit c \<longleftrightarrow> 48 \<le> (of_char c :: nat) \<and> (of_char c :: nat) \<le> 57"

text \<open>
  The characters \<^verbatim>\<open>int()\<close> strips around a number: the ASCII white space of
  \<^verbatim>\<open>Py_ISSPACE\<close> (9 to 13 and 32) and, of the code points from 128 to 255, the two
  Unicode spaces U+0085 and U+00A0, which CPython turns into blanks before it parses.
\<close>

definition int_space :: "char \<Rightarrow> bool" where
  "int_space c \<longleftrightarrow> (of_char c :: nat) \<in> {9, 10, 11, 12, 13, 32, 133, 160}"

definition digits_value :: "string \<Rightarrow> nat" where
  "digits_value ds = foldl (\<lambda>acc c. 10 * acc + (of_char c - 48)) 0 ds"

fun double_underscore :: "string \<Rightarrow> bool" where
  "double_underscore (a # b # cs) =
     ((a = CHR ''_'' \<and> b = CHR ''_'') \<or> double_underscore (b # cs))"
| "double_underscore cs = False"

text \<open>
  \<^verbatim>\<open>int(s)\<close> in base 10: \<open>None\<close> is \<^verbatim>\<open>ValueError\<close>. White space is stripped on both
  sides, one sign may precede the digits, and single underscores may stand between
  digits. \<open>limit\<close> is \<^verbatim>\<open>sys.get_int_max_str_digits()\<close> (4300 by default, 0 for no
  limit, and no limit in interpreters older than the check): a text of more than 640
  digits that exceeds a positive limit is refused with \<^verbatim>\<open>ValueError\<close>.
\<close>

definition py_int :: "nat \<Rightarrow> string \<Rightarrow> int option" where
  "py_int limit s =
     (let s1 = dropWhile int_space s;
          neg = (s1 \<noteq> [] \<and> hd s1 = CHR ''-'');
          s2 = (if s1 \<noteq> [] \<and> (hd s1 = CHR ''-'' \<or> hd s1 = CHR ''+'') then tl s1 else s1);
          body = takeWhile (\<lambda>c. is_digit c \<or> c = CHR ''_'') s2;
          rest = dropWhile (\<lambda>c. is_digit c \<or> c = CHR ''_'') s2;
          ds = filter is_digit body
      in if body = [] \<or> hd body = CHR ''_'' \<or> last body = CHR ''_''
            \<or> double_underscore body \<or> \<not> list_all int_space rest
         then None
         else if 640 < length ds \<and> 0 < limit \<and> limit < length ds then None
         else Some (if neg then - int (digits_value ds) else int (digits_value ds)))"

subsection \<open>The clock\<close>

text \<open>
  \<^verbatim>\<open>time.time()\<close> is a reading of the clock in seconds, a double; it is modelled as
  the real number it stands for. \<^verbatim>\<open>time.time() + ttl\<close> adds an \<^verbatim>\<open>int\<close> to a \<^verbatim>\<open>float\<close>:
  CPython first converts the \<^verbatim>\<open>int\<close> to a double and raises \<^verbatim>\<open>OverflowError\<close> when it
  does not fit, that is when its magnitude reaches \<open>2^1024 - 2^970\<close> (the first integer
  that rounds beyond the largest double). Below that bound the \<^verbatim>\<open>int\<close> is rounded to
  the nearest double, the two doubles are added, and the sum is rounded to the nearest
  double again. The rounding of the float format is the function \<open>rnd\<close>, which the
  interpreter supplies; it is not computed here, so the double that is stored is
  \<open>rnd (x + rnd n)\<close> and not the exact sum. (A reading of the clock is far below
  \<open>2^970\<close>, so that sum stays in the range of the finite doubles.)
\<close>

definition float_max_int :: int where
  "float_max_int = 2 ^ 1024 - 2 ^ 970"

definition float_sum :: "(real \<Rightarrow> real) \<Rightarrow> real \<Rightarrow> int \<Rightarrow> real" where
  "float_sum rnd x n = rnd (x + rnd (of_int n))"

definition float_add_int :: "(real \<Rightarrow> real) \<Rightarrow> real \<Rightarrow> int \<Rightarrow> py_exception + real" where
  "float_add_int rnd x n =
     (if float_max_int \<le> \<bar>n\<bar> then Inl (OverflowError ''int too large to convert to float'')
      else Inr (float_sum rnd x n))"

subsection \<open>\<^verbatim>\<open>shlex.split\<close>\<close>

text \<open>
  \<^verbatim>\<open>shlex.split(s)\<close> runs the POSIX-mode lexer of the standard library with
  \<^verbatim>\<open>whitespace_split\<close> set and no comment characters. The lexer reads one character at
  a time in one of four states: between tokens (\<^verbatim>\<open>' '\<close>), inside a word (\<^verbatim>\<open>'a'\<close>),
  inside quotes (the state is the quote character), and after a backslash (the state to
  return to is \<^verbatim>\<open>escapedstate\<close>). \<open>quoted\<close> and \<open>tok\<close> are the lexer's \<^verbatim>\<open>quoted\<close> flag
  and the token read so far; a token is emitted when it is not empty or was quoted.
\<close>

datatype lex_state = LSpace | LWord | LQuote char | LEscape lex_state

definition shlex_whitespace :: "char \<Rightarrow> bool" where
  "shlex_whitespace c \<longleftrightarrow> c = CHR '' '' \<or> c = CHR 0x09 \<or> c = CHR 0x0D \<or> c = CHR 0x0A"

definition shlex_quote :: "char \<Rightarrow> bool" where
  "shlex_quote c \<longleftrightarrow> c = CHR 0x27 \<or> c = CHR 0x22"

definition shlex_escape :: "char \<Rightarrow> bool" where
  "shlex_escape c \<longleftrightarrow> c = CHR 0x5C"

definition emit :: "bool \<Rightarrow> string \<Rightarrow> string list \<Rightarrow> string list" where
  "emit quoted tok rest = (if tok \<noteq> [] \<or> quoted then tok # rest else rest)"

fun lex :: "lex_state \<Rightarrow> bool \<Rightarrow> string \<Rightarrow> string \<Rightarrow> py_exception + string list" where
  "lex LSpace quoted tok [] = Inr (emit quoted tok [])"
| "lex LWord quoted tok [] = Inr (emit quoted tok [])"
| "lex (LQuote q) quoted tok [] = Inl (ValueError ''No closing quotation'')"
| "lex (LEscape back) quoted tok [] = Inl (ValueError ''No escaped character'')"
| "lex LSpace quoted tok (c # cs) =
     (if shlex_whitespace c then
        (if tok \<noteq> [] \<or> quoted then map_sum id ((#) tok) (lex LSpace False [] cs)
         else lex LSpace quoted tok cs)
      else if shlex_escape c then lex (LEscape LWord) quoted tok cs
      else if shlex_quote c then lex (LQuote c) quoted tok cs
      else lex LWord quoted [c] cs)"
| "lex LWord quoted tok (c # cs) =
     (if shlex_whitespace c then
        (if tok \<noteq> [] \<or> quoted then map_sum id ((#) tok) (lex LSpace False [] cs)
         else lex LSpace quoted tok cs)
      else if shlex_quote c then lex (LQuote c) quoted tok cs
      else if shlex_escape c then lex (LEscape LWord) quoted tok cs
      else lex LWord quoted (tok @ [c]) cs)"
| "lex (LQuote q) quoted tok (c # cs) =
     (if c = q then lex LWord True tok cs
      else if shlex_escape c \<and> q = CHR 0x22 then lex (LEscape (LQuote q)) True tok cs
      else lex (LQuote q) True (tok @ [c]) cs)"
| "lex (LEscape back) quoted tok (c # cs) =
     (case back of
        LQuote q \<Rightarrow>
          (if \<not> shlex_escape c \<and> c \<noteq> q then lex back quoted (tok @ [CHR 0x5C, c]) cs
           else lex back quoted (tok @ [c]) cs)
      | _ \<Rightarrow> lex back quoted (tok @ [c]) cs)"

definition shlex_split :: "string \<Rightarrow> py_exception + string list" where
  "shlex_split s = lex LSpace False [] s"

section \<open>The world outside the core\<close>

text \<open>
  What one call of the core takes from outside: the hash function of \<^verbatim>\<open>hashlib\<close>
  (the digest of \<^verbatim>\<open>hashlib.sha256(b).digest()\<close>, as bytes), the bytes \<^verbatim>\<open>os.urandom(n)\<close>
  returns, the reading of \<^verbatim>\<open>time.time()\<close>, the rounding of a real number to the nearest
  double (IEEE 754 binary64) that float arithmetic applies, the interpreter's limit on
  the digits of an integer text, and the two things the application's own commands reach for: the names
  of the loaded bots and the outcome of \<^verbatim>\<open>reload_all_bots\<close> (a method that is not in the
  file; \<open>Some e\<close> when it raises).
\<close>

record env =
  sha256 :: "string \<Rightarrow> 8 word list"
  urandom :: "nat \<Rightarrow> 8 word list"
  now :: real
  float_round :: "real \<Rightarrow> real"
  int_max_str_digits :: nat
  loaded_bots :: "string list"
  reload_all_bots :: "py_exception option"

definition hexdigit :: "nat \<Rightarrow> char" where
  "hexdigit n = ''0123456789abcdef'' ! (n mod 16)"

text \<open>\<^verbatim>\<open>bytes.hex()\<close>: two lower-case hexadecimal digits for each byte.\<close>

definition hex :: "8 word list \<Rightarrow> string" where
  "hex bs = concat (map (\<lambda>b. [hexdigit (unat b div 16), hexdigit (unat b mod 16)]) bs)"

section \<open>Passwords and the user store\<close>

text \<open>\<^verbatim>\<open>hash_password(plain, salt=None)\<close>, lines 28 to 32.\<close>

definition hash_password :: "env \<Rightarrow> string \<Rightarrow> string option \<Rightarrow> string" where
  "hash_password e plain salt0 =
     (let salt = (case salt0 of None \<Rightarrow> hex (urandom e 16) | Some s \<Rightarrow> s);
          h = hex (sha256 e (plain @ salt))
      in salt @ ''$'' @ h)"

text \<open>
  \<^verbatim>\<open>UserStore.users\<close> is a dictionary from a user name to
  \<^verbatim>\<open>{"perms": [...], "password": hashed or None}\<close>. It is kept as an association list in
  insertion order, which is the order \<^verbatim>\<open>list_users\<close> shows; \<^const>\<open>AList.update\<close> is the
  assignment \<^verbatim>\<open>d[k] = v\<close> (a known key keeps its place, a new key goes to the end).
\<close>

record user =
  perms :: "string list"
  password :: "string option"

type_synonym user_store = "(string \<times> user) list"

definition ensure_user :: "string \<Rightarrow> user_store \<Rightarrow> user_store" where
  "ensure_user username us =
     (if map_of us username = None
      then AList.update username \<lparr>perms = [], password = None\<rparr> us
      else us)"

text \<open>
  The three mutators call \<^verbatim>\<open>ensure_user\<close> first, so the record they then change is
  always there; the \<open>None\<close> branch of the lookup after it is never taken.
\<close>

definition set_password :: "env \<Rightarrow> string \<Rightarrow> string \<Rightarrow> user_store \<Rightarrow> user_store" where
  "set_password e username plain us =
     (let us1 = ensure_user username us
      in case map_of us1 username of
           None \<Rightarrow> us1
         | Some u \<Rightarrow> AList.update username (u\<lparr>password := Some (hash_password e plain None)\<rparr>) us1)"

text \<open>
  \<^verbatim>\<open>check_password\<close>, lines 63 to 69. The unpacking \<^verbatim>\<open>salt, hashed = hp.split('$')\<close>
  raises \<^verbatim>\<open>ValueError\<close> unless the stored text has exactly one \<^verbatim>\<open>$\<close>.
\<close>

definition check_password :: "env \<Rightarrow> user_store \<Rightarrow> string \<Rightarrow> string \<Rightarrow> py_exception + bool" where
  "check_password e us username plain =
     (case map_of us username of
        None \<Rightarrow> Inr False
      | Some u \<Rightarrow>
          (case password u of
             None \<Rightarrow> Inr False
           | Some hp \<Rightarrow>
               (case split_on CHR ''$'' hp of
                  [salt, hashed] \<Rightarrow> Inr (hash_password e plain (Some salt) = hp)
                | [p] \<Rightarrow> Inl (ValueError ''not enough values to unpack (expected 2, got 1)'')
                | _ \<Rightarrow> Inl (ValueError ''too many values to unpack (expected 2)''))))"

definition add_perm :: "string \<Rightarrow> string \<Rightarrow> user_store \<Rightarrow> user_store" where
  "add_perm username perm us =
     (let us1 = ensure_user username us
      in case map_of us1 username of
           None \<Rightarrow> us1
         | Some u \<Rightarrow>
             if perm \<notin> set (perms u)
             then AList.update username (u\<lparr>perms := perms u @ [perm]\<rparr>) us1
             else us1)"

text \<open>\<^verbatim>\<open>list.remove(x)\<close> takes out the first occurrence: \<^const>\<open>remove1\<close>.\<close>

definition remove_perm :: "string \<Rightarrow> string \<Rightarrow> user_store \<Rightarrow> user_store" where
  "remove_perm username perm us =
     (let us1 = ensure_user username us
      in case map_of us1 username of
           None \<Rightarrow> us1
         | Some u \<Rightarrow>
             if perm \<in> set (perms u)
             then AList.update username (u\<lparr>perms := remove1 perm (perms u)\<rparr>) us1
             else us1)"

definition has_perm :: "user_store \<Rightarrow> string \<Rightarrow> string \<Rightarrow> bool" where
  "has_perm us username perm =
     (case map_of us username of
        None \<Rightarrow> False
      | Some u \<Rightarrow> ''*'' \<in> set (perms u) \<or> perm \<in> set (perms u))"

definition list_users :: "user_store \<Rightarrow> string list" where
  "list_users us = map fst us"

definition list_perms :: "user_store \<Rightarrow> string \<Rightarrow> string list" where
  "list_perms us username = (case map_of us username of None \<Rightarrow> [] | Some u \<Rightarrow> perms u)"

section \<open>The command registry\<close>

text \<open>
  A registered function is named by a constructor. The registry is the dictionary
  \<^verbatim>\<open>CommandRegistry._cmds\<close>, again in insertion order (the order \<^verbatim>\<open>list_commands\<close>
  shows); an entry holds the function and the permission \<^verbatim>\<open>perm\<close>, \<open>None\<close> for none.
\<close>

datatype handler =
    Cmd_grant | Cmd_revoke | Cmd_whoami | Cmd_say | Cmd_echo
  | Cmd_list_users | Cmd_list_perms | Cmd_create_user | Cmd_change_password
  | Cmd_add_perm | Cmd_remove_perm | Cmd_list_commands
  | Cmd_list_bots | Cmd_reload_bots

type_synonym registry = "(string \<times> handler \<times> string option) list"

definition register :: "string \<Rightarrow> handler \<Rightarrow> string option \<Rightarrow> registry \<Rightarrow> registry" where
  "register name fn perm reg = AList.update name (fn, perm) reg"

definition all_commands :: "registry \<Rightarrow> string list" where
  "all_commands reg = map fst reg"

text \<open>
  The registry once the module is loaded: the \<^verbatim>\<open>@command\<close> decorators of lines 208 to
  262, in their order.
\<close>

definition module_registry :: registry where
  "module_registry =
     foldl (\<lambda>reg (name, fn, perm). register name fn perm reg) []
       [(''grant'', Cmd_grant, Some ''grant''),
        (''revoke'', Cmd_revoke, Some ''grant''),
        (''whoami'', Cmd_whoami, None),
        (''say'', Cmd_say, Some ''say''),
        (''echo'', Cmd_echo, None),
        (''list_users'', Cmd_list_users, Some ''admin''),
        (''list_perms'', Cmd_list_perms, Some ''admin''),
        (''create_user'', Cmd_create_user, Some ''admin''),
        (''change_password'', Cmd_change_password, Some ''admin''),
        (''add_perm'', Cmd_add_perm, Some ''admin''),
        (''remove_perm'', Cmd_remove_perm, Some ''admin''),
        (''list_commands'', Cmd_list_commands, None)]"

text \<open>
  The registry the application dispatches on: \<^verbatim>\<open>BotCreatorOS.__init__\<close> (lines 723 to
  736) registers its two commands and registers the built-in ones again. This is also
  where the global \<^verbatim>\<open>dispatcher\<close> that every handler uses is set (line 707).
\<close>

definition app_registry :: registry where
  "app_registry =
     foldl (\<lambda>reg (name, fn, perm). register name fn perm reg) module_registry
       [(''list_bots'', Cmd_list_bots, Some ''view''),
        (''reload_bots'', Cmd_reload_bots, Some ''admin''),
        (''whoami'', Cmd_whoami, None),
        (''grant'', Cmd_grant, Some ''admin''),
        (''revoke'', Cmd_revoke, Some ''admin''),
        (''say'', Cmd_say, Some ''say''),
        (''echo'', Cmd_echo, None),
        (''list_users'', Cmd_list_users, Some ''admin''),
        (''list_perms'', Cmd_list_perms, Some ''admin''),
        (''create_user'', Cmd_create_user, Some ''admin''),
        (''change_password'', Cmd_change_password, Some ''admin''),
        (''add_perm'', Cmd_add_perm, Some ''admin''),
        (''remove_perm'', Cmd_remove_perm, Some ''admin''),
        (''list_commands'', Cmd_list_commands, None)]"

section \<open>The built-in commands\<close>

text \<open>
  A handler is called as \<^verbatim>\<open>entry['fn'](ctx, *args)\<close>. Python binds the arguments before
  the body runs and raises \<^verbatim>\<open>TypeError\<close> when their number does not fit the
  signature; \<open>arity_error\<close> is that exception with CPython's message. \<open>self\<close> is 1 for the
  two bound methods of the application, whose count of arguments includes \<^verbatim>\<open>self\<close>.
\<close>

definition missing_names :: "string list \<Rightarrow> string" where
  "missing_names ms =
     (case ms of
        [] \<Rightarrow> []
      | [a] \<Rightarrow> sq a
      | [a, b] \<Rightarrow> sq a @ '' and '' @ sq b
      | _ \<Rightarrow> join '', '' (map sq (butlast ms)) @ '', and '' @ sq (last ms))"

definition arity_error :: "string \<Rightarrow> nat \<Rightarrow> string list \<Rightarrow> string list \<Rightarrow> py_exception" where
  "arity_error fname self params args =
     (let takes = self + 1 + length params;
          given = self + 1 + length args;
          missing = drop (length args) params
      in if length params < length args
         then TypeError (fname @ ''() takes '' @ str_nat takes
                @ (if takes = 1 then '' positional argument but '' else '' positional arguments but '')
                @ str_nat given @ (if given = 1 then '' was given'' else '' were given''))
         else TypeError (fname @ ''() missing '' @ str_nat (length missing)
                @ (if length missing = 1 then '' required positional argument: ''
                   else '' required positional arguments: '')
                @ missing_names missing))"

text \<open>
  The bodies, lines 208 to 262 and 744 to 749. \<open>u\<close> is \<^verbatim>\<open>ctx.user\<close>, the acting user;
  \<^verbatim>\<open>dispatcher.users\<close> is the store, passed in and returned.
\<close>

definition cmd_grant :: "string \<Rightarrow> string \<Rightarrow> string \<Rightarrow> user_store \<Rightarrow> (py_exception + string) \<times> user_store" where
  "cmd_grant u who perm us = (Inr (u @ '' granted '' @ sq perm @ '' to '' @ who), add_perm who perm us)"

definition cmd_revoke :: "string \<Rightarrow> string \<Rightarrow> string \<Rightarrow> user_store \<Rightarrow> (py_exception + string) \<times> user_store" where
  "cmd_revoke u who perm us = (Inr (u @ '' revoked '' @ sq perm @ '' from '' @ who), remove_perm who perm us)"

definition cmd_whoami :: "string \<Rightarrow> user_store \<Rightarrow> (py_exception + string) \<times> user_store" where
  "cmd_whoami u us = (Inr (''you are '' @ u), us)"

definition cmd_say :: "string \<Rightarrow> string list \<Rightarrow> user_store \<Rightarrow> (py_exception + string) \<times> user_store" where
  "cmd_say u words us = (Inr (u @ '' says: '' @ join '' '' words), us)"

definition cmd_echo :: "string \<Rightarrow> string list \<Rightarrow> user_store \<Rightarrow> (py_exception + string) \<times> user_store" where
  "cmd_echo u words us = (Inr (join '' '' words), us)"

definition cmd_list_users :: "string \<Rightarrow> user_store \<Rightarrow> (py_exception + string) \<times> user_store" where
  "cmd_list_users u us = (Inr (join '', '' (list_users us)), us)"

definition cmd_list_perms :: "string \<Rightarrow> string \<Rightarrow> user_store \<Rightarrow> (py_exception + string) \<times> user_store" where
  "cmd_list_perms u who us = (Inr (join '', '' (list_perms us who)), us)"

definition cmd_create_user :: "string \<Rightarrow> string \<Rightarrow> user_store \<Rightarrow> (py_exception + string) \<times> user_store" where
  "cmd_create_user u who us = (Inr (''user '' @ sq who @ '' created''), ensure_user who us)"

definition cmd_change_password ::
  "env \<Rightarrow> string \<Rightarrow> string \<Rightarrow> string \<Rightarrow> user_store \<Rightarrow> (py_exception + string) \<times> user_store" where
  "cmd_change_password e u who new_plain us =
     (if who \<noteq> u \<and> \<not> has_perm us u ''change_others_password''
      then (Inr (''no permission to change others'' @ [CHR 0x27] @ '' password''), us)
      else (Inr (''password changed for '' @ who), set_password e who new_plain us))"

definition cmd_add_perm :: "string \<Rightarrow> string \<Rightarrow> string \<Rightarrow> user_store \<Rightarrow> (py_exception + string) \<times> user_store" where
  "cmd_add_perm u who perm us = (Inr (''added '' @ sq perm @ '' to '' @ who), add_perm who perm us)"

definition cmd_remove_perm :: "string \<Rightarrow> string \<Rightarrow> string \<Rightarrow> user_store \<Rightarrow> (py_exception + string) \<times> user_store" where
  "cmd_remove_perm u who perm us = (Inr (''removed '' @ sq perm @ '' from '' @ who), remove_perm who perm us)"

definition cmd_list_commands :: "registry \<Rightarrow> string \<Rightarrow> user_store \<Rightarrow> (py_exception + string) \<times> user_store" where
  "cmd_list_commands reg u us = (Inr (join '', '' (all_commands reg)), us)"

definition cmd_list_bots :: "env \<Rightarrow> string \<Rightarrow> user_store \<Rightarrow> (py_exception + string) \<times> user_store" where
  "cmd_list_bots e u us = (Inr (join '', '' (loaded_bots e)), us)"

definition cmd_reload_bots :: "env \<Rightarrow> string \<Rightarrow> user_store \<Rightarrow> (py_exception + string) \<times> user_store" where
  "cmd_reload_bots e u us =
     (case reload_all_bots e of
        Some x \<Rightarrow> (Inl x, us)
      | None \<Rightarrow> (Inr ''Bots reloaded successfully'', us))"

text \<open>The call \<^verbatim>\<open>entry['fn'](ctx, *args)\<close>: binding, then the body.\<close>

definition call_handler ::
  "env \<Rightarrow> registry \<Rightarrow> handler \<Rightarrow> string \<Rightarrow> string list \<Rightarrow> user_store
     \<Rightarrow> (py_exception + string) \<times> user_store" where
  "call_handler e reg fn u args us =
     (case fn of
        Cmd_grant \<Rightarrow>
          (case args of [who, perm] \<Rightarrow> cmd_grant u who perm us
           | _ \<Rightarrow> (Inl (arity_error ''cmd_grant'' 0 [''who'', ''perm''] args), us))
      | Cmd_revoke \<Rightarrow>
          (case args of [who, perm] \<Rightarrow> cmd_revoke u who perm us
           | _ \<Rightarrow> (Inl (arity_error ''cmd_revoke'' 0 [''who'', ''perm''] args), us))
      | Cmd_whoami \<Rightarrow>
          (case args of [] \<Rightarrow> cmd_whoami u us
           | _ \<Rightarrow> (Inl (arity_error ''cmd_whoami'' 0 [] args), us))
      | Cmd_say \<Rightarrow> cmd_say u args us
      | Cmd_echo \<Rightarrow> cmd_echo u args us
      | Cmd_list_users \<Rightarrow>
          (case args of [] \<Rightarrow> cmd_list_users u us
           | _ \<Rightarrow> (Inl (arity_error ''cmd_list_users'' 0 [] args), us))
      | Cmd_list_perms \<Rightarrow>
          (case args of [who] \<Rightarrow> cmd_list_perms u who us
           | _ \<Rightarrow> (Inl (arity_error ''cmd_list_perms'' 0 [''who''] args), us))
      | Cmd_create_user \<Rightarrow>
          (case args of [who] \<Rightarrow> cmd_create_user u who us
           | _ \<Rightarrow> (Inl (arity_error ''cmd_create_user'' 0 [''who''] args), us))
      | Cmd_change_password \<Rightarrow>
          (case args of [who, new_plain] \<Rightarrow> cmd_change_password e u who new_plain us
           | _ \<Rightarrow> (Inl (arity_error ''cmd_change_password'' 0 [''who'', ''new_plain''] args), us))
      | Cmd_add_perm \<Rightarrow>
          (case args of [who, perm] \<Rightarrow> cmd_add_perm u who perm us
           | _ \<Rightarrow> (Inl (arity_error ''cmd_add_perm'' 0 [''who'', ''perm''] args), us))
      | Cmd_remove_perm \<Rightarrow>
          (case args of [who, perm] \<Rightarrow> cmd_remove_perm u who perm us
           | _ \<Rightarrow> (Inl (arity_error ''cmd_remove_perm'' 0 [''who'', ''perm''] args), us))
      | Cmd_list_commands \<Rightarrow>
          (case args of [] \<Rightarrow> cmd_list_commands reg u us
           | _ \<Rightarrow> (Inl (arity_error ''cmd_list_commands'' 0 [] args), us))
      | Cmd_list_bots \<Rightarrow>
          (case args of [] \<Rightarrow> cmd_list_bots e u us
           | _ \<Rightarrow> (Inl (arity_error ''BotCreatorOS.cmd_list_bots'' 1 [] args), us))
      | Cmd_reload_bots \<Rightarrow>
          (case args of [] \<Rightarrow> cmd_reload_bots e u us
           | _ \<Rightarrow> (Inl (arity_error ''BotCreatorOS.cmd_reload_bots'' 1 [] args), us)))"

section \<open>The dispatcher\<close>

text \<open>
  \<^verbatim>\<open>Dispatcher\<close> holds the store and the impersonation sessions, a dictionary from the
  invoker to \<^verbatim>\<open>(target_user, expires_at)\<close>. A call returns what the caller gets (the
  string, or the exception that escapes) and the dispatcher after the call.
\<close>

record dispatcher =
  users :: user_store
  sessions :: "string \<rightharpoonup> string \<times> real"

type_synonym outcome = "(py_exception + string) \<times> dispatcher"

text \<open>
  \<^verbatim>\<open>_execute_as\<close>, lines 135 to 153. The test \<^verbatim>\<open>if required and ...\<close> passes over a
  permission that is \<^verbatim>\<open>None\<close> or the empty string. Only the call of the handler stands
  inside \<^verbatim>\<open>try\<close>; \<^verbatim>\<open>shlex.split\<close> stands before it.
\<close>

definition execute_as :: "env \<Rightarrow> registry \<Rightarrow> string \<Rightarrow> string \<Rightarrow> string \<Rightarrow> dispatcher \<Rightarrow> outcome" where
  "execute_as e reg target_user cmdline invoker d =
     (case shlex_split cmdline of
        Inl x \<Rightarrow> (Inl x, d)
      | Inr [] \<Rightarrow> (Inr ''no command'', d)
      | Inr (name # args) \<Rightarrow>
          (case map_of reg name of
             None \<Rightarrow> (Inr (''unknown command '' @ sq name), d)
           | Some (fn, required) \<Rightarrow>
               (case required of
                  Some r \<Rightarrow>
                    if r \<noteq> [] \<and> \<not> has_perm (users d) target_user r
                    then (Inr (''user '' @ sq target_user @ '' lacks '' @ sq r @ '' permission''), d)
                    else (case call_handler e reg fn target_user args (users d) of
                            (Inr result, us) \<Rightarrow> (Inr result, d\<lparr>users := us\<rparr>)
                          | (Inl x, us) \<Rightarrow> (Inr (''error: '' @ exc_message x), d\<lparr>users := us\<rparr>))
                | None \<Rightarrow>
                    (case call_handler e reg fn target_user args (users d) of
                       (Inr result, us) \<Rightarrow> (Inr result, d\<lparr>users := us\<rparr>)
                     | (Inl x, us) \<Rightarrow> (Inr (''error: '' @ exc_message x), d\<lparr>users := us\<rparr>)))))"

text \<open>
  The time to live of a session, lines 176 to 181: the fifth token read by \<^verbatim>\<open>int()\<close>,
  and 300 when there is none or \<^verbatim>\<open>int()\<close> raises.
\<close>

definition session_ttl :: "env \<Rightarrow> string list \<Rightarrow> int" where
  "session_ttl e parts =
     (if 5 \<le> length parts
      then (case py_int (int_max_str_digits e) (parts ! 4) of
              Some n \<Rightarrow> n
            | None \<Rightarrow> 300)
      else 300)"

text \<open>\<^verbatim>\<open>run\<close>, lines 155 to 205.\<close>

definition run :: "env \<Rightarrow> registry \<Rightarrow> string \<Rightarrow> string \<Rightarrow> dispatcher \<Rightarrow> outcome" where
  "run e reg invoker cmdline d =
     (case shlex_split cmdline of
        Inl x \<Rightarrow> (Inl x, d)
      | Inr parts \<Rightarrow>
          if parts = [] then (Inr ''no command'', d)
          else if parts ! 0 = ''sudo'' then
            (if 3 \<le> length parts \<and> parts ! 1 = ''-u'' then
               (let target = parts ! 2 in
                if length parts < 4 then (Inr ''usage: sudo -u <target> <command...>'', d)
                else
                  (let command = join '' '' (drop 3 parts) in
                   if \<not> has_perm (users d) invoker ''sudo''
                   then (Inr (''invoker '' @ sq invoker @ '' lacks '' @ sq ''sudo'' @ '' permission''), d)
                   else execute_as e reg target command invoker d))
             else if 4 \<le> length parts \<and> parts ! 1 = ''-i'' \<and> parts ! 2 = ''-u'' then
               (let target = parts ! 3;
                    ttl = session_ttl e parts
                in if \<not> has_perm (users d) invoker ''sudo''
                   then (Inr (''invoker '' @ sq invoker @ '' lacks '' @ sq ''sudo'' @ '' permission''), d)
                   else
                     (case float_add_int (float_round e) (now e) ttl of
                        Inl x \<Rightarrow> (Inl x, d)
                      | Inr expires \<Rightarrow>
                          (Inr (''impersonating '' @ target @ '' for '' @ str_int ttl @ '' seconds''),
                           d\<lparr>sessions := (sessions d)(invoker \<mapsto> (target, expires))\<rparr>)))
             else (Inr ''usage: sudo -u <target> <command...>  OR  sudo -i -u <target> [seconds]'', d))
          else
            (case sessions d invoker of
               Some (target, expires) \<Rightarrow>
                 if now e < expires then execute_as e reg target cmdline invoker d
                 else execute_as e reg invoker cmdline invoker
                        (d\<lparr>sessions := (sessions d)(invoker := None)\<rparr>)
             | None \<Rightarrow> execute_as e reg invoker cmdline invoker d))"

section \<open>Example data\<close>

text \<open>
  A world with a toy hash function and a clock at 1000 (every number of the examples is
  an integer below \<open>2^53\<close>, which is a double, so the rounding is the identity there),
  and the users that \<^verbatim>\<open>BotCreatorOS.__init__\<close> sets
  up (lines 710 to 720) together with \<^verbatim>\<open>carol\<close>, who holds \<^verbatim>\<open>grant\<close> only, and \<^verbatim>\<open>dave\<close>, who holds \<^verbatim>\<open>admin\<close> only.
\<close>

definition example_env :: env where
  "example_env =
     \<lparr>sha256 = (\<lambda>s. map (\<lambda>c. of_nat (of_char c)) s),
      urandom = (\<lambda>n. [7, 171]),
      now = 1000,
      float_round = (\<lambda>r. r),
      int_max_str_digits = 4300,
      loaded_bots = [],
      reload_all_bots = None\<rparr>"

definition example_users :: user_store where
  "example_users =
     [(''admin'', \<lparr>perms = [''*''], password = None\<rparr>),
      (''guest'', \<lparr>perms = [''view''], password = None\<rparr>),
      (''alice'', \<lparr>perms = [''say'', ''sudo''], password = None\<rparr>),
      (''bob'', \<lparr>perms = [''say''], password = None\<rparr>),
      (''carol'', \<lparr>perms = [''grant''], password = None\<rparr>),
      (''dave'', \<lparr>perms = [''admin''], password = None\<rparr>)]"

definition example_dispatcher :: dispatcher where
  "example_dispatcher = \<lparr>users = example_users, sessions = Map.empty\<rparr>"

text \<open>The same dispatcher while \<^verbatim>\<open>alice\<close> holds a session as \<^verbatim>\<open>bob\<close> that ended at 900.\<close>

definition expired_dispatcher :: dispatcher where
  "expired_dispatcher =
     \<lparr>users = example_users, sessions = [''alice'' \<mapsto> (''bob'', 900)]\<rparr>"

section \<open>The user store: lemmas\<close>

lemma map_of_ensure_user:
  "map_of (ensure_user u us) u =
     Some (case map_of us u of None \<Rightarrow> \<lparr>perms = [], password = None\<rparr> | Some x \<Rightarrow> x)"
  by (simp add: ensure_user_def update_conv' split: option.splits)

lemma remove1_once: "count_list xs p \<le> 1 \<Longrightarrow> p \<notin> set (remove1 p xs)"
  by (induction xs) (auto simp: count_list_0_iff split: if_splits)

lemma set_remove1_other: "q \<noteq> p \<Longrightarrow> q \<in> set (remove1 p xs) \<longleftrightarrow> q \<in> set xs"
  by (induction xs) auto

lemma has_perm_add_perm: "has_perm (add_perm u p us) u p"
  by (auto simp: has_perm_def add_perm_def Let_def map_of_ensure_user update_conv'
      split: option.splits)

lemma has_perm_remove_add:
  assumes "count_list (list_perms us u) p \<le> 1"
    and "''*'' \<in> set (list_perms us u) \<longrightarrow> p = ''*''"
  shows "\<not> has_perm (remove_perm u p (add_perm u p us)) u p"
proof (cases "map_of us u")
  case None
  then show ?thesis
    by (simp add: has_perm_def remove_perm_def add_perm_def Let_def update_conv' ensure_user_def)
next
  case (Some usr)
  with assms have c: "count_list (perms usr) p \<le> 1"
    and w: "''*'' \<in> set (perms usr) \<longrightarrow> p = ''*''"
    by (simp_all add: list_perms_def)
  show ?thesis
  proof (cases "p \<in> set (perms usr)")
    case True
    with Some have a: "add_perm u p us = us"
      by (simp add: add_perm_def Let_def ensure_user_def)
    from c have "p \<notin> set (remove1 p (perms usr))"
      by (rule remove1_once)
    moreover have "''*'' \<notin> set (remove1 p (perms usr))"
      using w c by (cases "p = ''*''") (auto simp: remove1_once set_remove1_other)
    ultimately show ?thesis
      using Some True
      by (simp add: a has_perm_def remove_perm_def Let_def ensure_user_def update_conv')
  next
    case False
    with Some w show ?thesis
      by (auto simp: has_perm_def remove_perm_def add_perm_def Let_def ensure_user_def
          update_conv' remove1_append)
  qed
qed

lemma hexdigit_not_dollar: "hexdigit n \<noteq> CHR ''$''"
proof -
  have "n mod 16 < length ''0123456789abcdef''"
    by simp
  then have "hexdigit n \<in> set ''0123456789abcdef''"
    unfolding hexdigit_def by (rule nth_mem)
  then show ?thesis
    by auto
qed

lemma hex_no_dollar: "CHR ''$'' \<notin> set (hex bs)"
  by (induction bs) (simp_all add: hex_def hexdigit_not_dollar [THEN not_sym])

lemma split_on_absent: "c \<notin> set b \<Longrightarrow> split_on c b = [b]"
  by (induction b) auto

lemma split_on_once: "c \<notin> set a \<Longrightarrow> c \<notin> set b \<Longrightarrow> split_on c (a @ c # b) = [a, b]"
  by (induction a) (auto simp: split_on_absent)

lemma check_after_set:
  assumes "sha256 e' = sha256 e"
  shows "check_password e' (set_password e u p us) u p = Inr True"
proof -
  let ?salt = "hex (urandom e 16)"
  let ?hp = "hash_password e p None"
  have hp: "?hp = ?salt @ CHR ''$'' # hex (sha256 e (p @ ?salt))"
    by (simp add: hash_password_def Let_def)
  have sp: "split_on CHR ''$'' ?hp = [?salt, hex (sha256 e (p @ ?salt))]"
    unfolding hp by (rule split_on_once) (rule hex_no_dollar)+
  have re: "hash_password e' p (Some ?salt) = ?hp"
    using assms by (simp add: hash_password_def Let_def)
  have "\<exists>usr. map_of (set_password e u p us) u = Some usr \<and> password usr = Some ?hp"
    by (simp add: set_password_def Let_def map_of_ensure_user update_conv')
  then obtain usr where "map_of (set_password e u p us) u = Some usr"
    and "password usr = Some ?hp"
    by blast
  then show ?thesis
    by (simp add: check_password_def sp re)
qed

section \<open>The dispatcher: lemmas\<close>

text \<open>What \<^verbatim>\<open>run\<close> does on each shape of the token list.\<close>

lemma sessions_execute_as: "sessions (snd (execute_as e reg u cmdline invoker d)) = sessions d"
  by (simp add: execute_as_def split: sum.splits list.splits option.splits prod.splits)

lemma execute_as_returns:
  "shlex_split cmdline = Inr ps \<Longrightarrow> \<exists>s. fst (execute_as e reg u cmdline invoker d) = Inr s"
  by (simp add: execute_as_def split: sum.splits list.splits option.splits prod.splits)

lemma run_empty: "shlex_split cmdline = Inr [] \<Longrightarrow> run e reg invoker cmdline d = (Inr ''no command'', d)"
  by (simp add: run_def)

lemma run_raise: "shlex_split cmdline = Inl x \<Longrightarrow> run e reg invoker cmdline d = (Inl x, d)"
  by (simp add: run_def)

lemma run_plain:
  assumes "shlex_split cmdline = Inr (name # args)" and "name \<noteq> ''sudo''"
  shows "run e reg invoker cmdline d =
     (case sessions d invoker of
        Some (target, expires) \<Rightarrow>
          if now e < expires then execute_as e reg target cmdline invoker d
          else execute_as e reg invoker cmdline invoker (d\<lparr>sessions := (sessions d)(invoker := None)\<rparr>)
      | None \<Rightarrow> execute_as e reg invoker cmdline invoker d)"
  using assms by (auto simp: run_def Let_def)

lemma run_sudo_u:
  assumes "shlex_split cmdline = Inr (''sudo'' # ''-u'' # target # c # rest)"
  shows "run e reg invoker cmdline d =
     (if \<not> has_perm (users d) invoker ''sudo''
      then (Inr (''invoker '' @ sq invoker @ '' lacks '' @ sq ''sudo'' @ '' permission''), d)
      else execute_as e reg target (join '' '' (c # rest)) invoker d)"
  using assms by (auto simp: run_def Let_def)

lemma run_sudo_u_usage:
  assumes "shlex_split cmdline = Inr [''sudo'', ''-u'', target]"
  shows "run e reg invoker cmdline d = (Inr ''usage: sudo -u <target> <command...>'', d)"
  using assms by (auto simp: run_def Let_def)

lemma run_sudo_i:
  assumes "shlex_split cmdline = Inr parts" and "parts = ''sudo'' # ''-i'' # ''-u'' # target # rest"
  shows "run e reg invoker cmdline d =
     (if \<not> has_perm (users d) invoker ''sudo''
      then (Inr (''invoker '' @ sq invoker @ '' lacks '' @ sq ''sudo'' @ '' permission''), d)
      else (case float_add_int (float_round e) (now e) (session_ttl e parts) of
              Inl x \<Rightarrow> (Inl x, d)
            | Inr expires \<Rightarrow>
                (Inr (''impersonating '' @ target @ '' for '' @ str_int (session_ttl e parts) @ '' seconds''),
                 d\<lparr>sessions := (sessions d)(invoker \<mapsto> (target, expires))\<rparr>)))"
  using assms by (auto simp: run_def Let_def)

lemma run_sudo_other:
  assumes "shlex_split cmdline = Inr (''sudo'' # rest)"
    and "\<not> (3 \<le> length (''sudo'' # rest) \<and> (''sudo'' # rest) ! 1 = ''-u'')"
    and "\<not> (4 \<le> length (''sudo'' # rest) \<and> (''sudo'' # rest) ! 1 = ''-i'' \<and> (''sudo'' # rest) ! 2 = ''-u'')"
  shows "run e reg invoker cmdline d = (Inr ''usage: sudo -u <target> <command...>  OR  sudo -i -u <target> [seconds]'', d)"
  using assms by (auto simp: run_def Let_def)

lemmas lex_defs = shlex_split_def shlex_whitespace_def shlex_quote_def shlex_escape_def emit_def

lemma app_registry_eq:
  "app_registry =
     [(''grant'', Cmd_grant, Some ''admin''),
      (''revoke'', Cmd_revoke, Some ''admin''),
      (''whoami'', Cmd_whoami, None),
      (''say'', Cmd_say, Some ''say''),
      (''echo'', Cmd_echo, None),
      (''list_users'', Cmd_list_users, Some ''admin''),
      (''list_perms'', Cmd_list_perms, Some ''admin''),
      (''create_user'', Cmd_create_user, Some ''admin''),
      (''change_password'', Cmd_change_password, Some ''admin''),
      (''add_perm'', Cmd_add_perm, Some ''admin''),
      (''remove_perm'', Cmd_remove_perm, Some ''admin''),
      (''list_commands'', Cmd_list_commands, None),
      (''list_bots'', Cmd_list_bots, Some ''view''),
      (''reload_bots'', Cmd_reload_bots, Some ''admin'')]"
  by (simp add: app_registry_def module_registry_def register_def)

lemma module_registry_eq:
  "module_registry =
     [(''grant'', Cmd_grant, Some ''grant''),
      (''revoke'', Cmd_revoke, Some ''grant''),
      (''whoami'', Cmd_whoami, None),
      (''say'', Cmd_say, Some ''say''),
      (''echo'', Cmd_echo, None),
      (''list_users'', Cmd_list_users, Some ''admin''),
      (''list_perms'', Cmd_list_perms, Some ''admin''),
      (''create_user'', Cmd_create_user, Some ''admin''),
      (''change_password'', Cmd_change_password, Some ''admin''),
      (''add_perm'', Cmd_add_perm, Some ''admin''),
      (''remove_perm'', Cmd_remove_perm, Some ''admin''),
      (''list_commands'', Cmd_list_commands, None)]"
  by (simp add: module_registry_def register_def)

text \<open>\<^verbatim>\<open>int()\<close> and the lexer on a text of digits.\<close>

lemma not_space_digit: "is_digit c \<Longrightarrow> \<not> int_space c"
  by (auto simp: is_digit_def int_space_def)

lemma digit_not_sign: "is_digit c \<Longrightarrow> c \<noteq> CHR ''-'' \<and> c \<noteq> CHR ''+'' \<and> c \<noteq> CHR ''_''"
  by (auto simp: is_digit_def)

lemma no_double_underscore: "list_all is_digit ds \<Longrightarrow> \<not> double_underscore ds"
  by (induction ds rule: double_underscore.induct) (auto simp: is_digit_def)

lemma takeWhile_all: "list_all P xs \<Longrightarrow> takeWhile (\<lambda>c. P c \<or> Q c) xs = xs"
  by (induction xs) auto

lemma dropWhile_all: "list_all P xs \<Longrightarrow> dropWhile (\<lambda>c. P c \<or> Q c) xs = []"
  by (induction xs) auto

lemma filter_all: "list_all P xs \<Longrightarrow> filter P xs = xs"
  by (induction xs) auto

lemma py_int_digits:
  assumes "ds \<noteq> []" and "list_all is_digit ds" and "length ds \<le> 640"
  shows "py_int limit ds = Some (int (digits_value ds))"
    and "py_int limit (CHR ''-'' # ds) = Some (- int (digits_value ds))"
proof -
  from assms obtain c cs where ds: "ds = c # cs"
    by (cases ds) auto
  with assms have c: "is_digit c"
    by simp
  from assms have l: "is_digit (last ds)"
    by (simp add: list_all_iff)
  have tw: "takeWhile (\<lambda>c. is_digit c \<or> c = CHR ''_'') ds = ds"
    and dw: "dropWhile (\<lambda>c. is_digit c \<or> c = CHR ''_'') ds = []"
    and fl: "filter is_digit ds = ds"
    using assms(2) by (simp_all add: takeWhile_all dropWhile_all filter_all)
  have nd: "\<not> double_underscore ds"
    using assms(2) by (rule no_double_underscore)
  have d0: "dropWhile int_space ds = ds"
    using c by (simp add: ds not_space_digit)
  have m0: "dropWhile int_space (CHR ''-'' # ds) = CHR ''-'' # ds"
    by (simp add: int_space_def)
  show "py_int limit ds = Some (int (digits_value ds))"
    unfolding py_int_def d0 using assms(1,3) c l nd digit_not_sign [OF c] digit_not_sign [OF l]
    by (simp add: tw dw fl Let_def) (simp add: ds)
  show "py_int limit (CHR ''-'' # ds) = Some (- int (digits_value ds))"
    unfolding py_int_def m0 using assms(1,3) c l nd digit_not_sign [OF c] digit_not_sign [OF l]
    by (simp add: tw dw fl Let_def) (simp add: ds)
qed

lemma foldl_zeros:
  "foldl (\<lambda>acc c. 10 * acc + (of_char c - 48)) (a::nat) (replicate n CHR ''0'') = a * 10 ^ n"
  by (induction n arbitrary: a) simp_all

lemma digits_value_one_zeros: "digits_value (CHR ''1'' # replicate n CHR ''0'') = 10 ^ n"
  by (simp add: digits_value_def foldl_zeros)

lemma lex_zeros:
  "tok \<noteq> [] \<Longrightarrow> lex LWord False tok (replicate n CHR ''0'') = Inr [tok @ replicate n CHR ''0'']"
  by (induction n arbitrary: tok)
     (simp_all add: lex_defs replicate_app_Cons_same)

lemma float_max_int_less: "float_max_int \<le> 10 ^ 400"
  by (simp add: float_max_int_def)

text \<open>
  Adding an integer that is not positive to a double does not give more: the rounding is
  monotone and leaves 0 and the double as they are.
\<close>

lemma float_sum_nonpositive:
  assumes "n \<le> 0" and "mono rnd" and "rnd 0 = 0" and "rnd x = x"
  shows "float_sum rnd x n \<le> x"
proof -
  from assms(1) have "real_of_int n \<le> 0"
    by simp
  with assms(2) have "rnd (of_int n) \<le> rnd 0"
    by (rule monoD)
  with assms(3) have "x + rnd (of_int n) \<le> x"
    by simp
  with assms(2) have "rnd (x + rnd (of_int n)) \<le> rnd x"
    by (rule monoD)
  with assms(4) show ?thesis
    by (simp add: float_sum_def)
qed

text \<open>\<^verbatim>\<open>run\<close> returns a string whenever nothing outside the handler raises.\<close>

lemma sudo_shapes:
  obtains (oneshot) target c rest where "args = ''-u'' # target # c # rest"
  | (oneshot_short) target where "args = [''-u'', target]"
  | (session) target rest where "args = ''-i'' # ''-u'' # target # rest"
  | (other) "\<not> (3 \<le> length (''sudo'' # args) \<and> (''sudo'' # args) ! 1 = ''-u'')"
      "\<not> (4 \<le> length (''sudo'' # args) \<and> (''sudo'' # args) ! 1 = ''-i'' \<and> (''sudo'' # args) ! 2 = ''-u'')"
proof (cases args)
  case Nil
  then show ?thesis by (intro other) simp_all
next
  case a: (Cons a as)
  show ?thesis
  proof (cases as)
    case Nil
    with a show ?thesis by (intro other) simp_all
  next
    case b: (Cons b bs)
    show ?thesis
    proof (cases bs)
      case Nil
      show ?thesis
      proof (cases "a = ''-u''")
        case True
        with a b Nil show ?thesis by (intro oneshot_short) simp
      next
        case False
        with a b Nil show ?thesis by (intro other) simp_all
      qed
    next
      case c: (Cons c cs)
      show ?thesis
      proof (cases "a = ''-u''")
        case True
        with a b c show ?thesis by (intro oneshot) simp
      next
        case False
        show ?thesis
        proof (cases "a = ''-i'' \<and> b = ''-u''")
          case True
          with a b c show ?thesis by (intro session) simp
        next
          case nb: False
          with False a b c show ?thesis by (intro other) auto
        qed
      qed
    qed
  qed
qed

lemma run_returns:
  assumes sp: "shlex_split cmdline = Inr parts"
    and resplit: "\<forall>target c rest. parts = ''sudo'' # ''-u'' # target # c # rest
            \<longrightarrow> (\<exists>ps. shlex_split (join '' '' (c # rest)) = Inr ps)"
    and range: "\<forall>target rest. parts = ''sudo'' # ''-i'' # ''-u'' # target # rest
            \<longrightarrow> \<bar>session_ttl e parts\<bar> < float_max_int"
  shows "\<exists>s. fst (run e reg invoker cmdline d) = Inr s"
proof (cases parts)
  case Nil
  with sp show ?thesis by (simp add: run_empty)
next
  case (Cons name args)
  show ?thesis
  proof (cases "name = ''sudo''")
    case False
    from sp Cons have sp': "shlex_split cmdline = Inr (name # args)" by simp
    show ?thesis
      unfolding run_plain [OF sp' False]
      using execute_as_returns [OF sp'] by (simp split: option.splits)
  next
    case True
    with sp Cons have sp': "shlex_split cmdline = Inr (''sudo'' # args)" by simp
    show ?thesis
    proof (cases args rule: sudo_shapes)
      case (oneshot target c rest)
      with sp' have s1: "shlex_split cmdline = Inr (''sudo'' # ''-u'' # target # c # rest)" by simp
      from resplit oneshot Cons True obtain ps where "shlex_split (join '' '' (c # rest)) = Inr ps"
        by auto
      from execute_as_returns [OF this] show ?thesis
        unfolding run_sudo_u [OF s1] by simp
    next
      case (oneshot_short target)
      with sp' have "shlex_split cmdline = Inr [''sudo'', ''-u'', target]" by simp
      then show ?thesis by (simp add: run_sudo_u_usage)
    next
      case (session target rest)
      with Cons True have p: "parts = ''sudo'' # ''-i'' # ''-u'' # target # rest" by simp
      with range have "\<bar>session_ttl e parts\<bar> < float_max_int" by simp
      then show ?thesis
        unfolding run_sudo_i [OF sp p] by (simp add: float_add_int_def)
    next
      case other
      from run_sudo_other [OF sp' other] show ?thesis by simp
    qed
  qed
qed

lemma execute_as_unknown:
  assumes "shlex_split cmdline = Inr (name # args)" and "map_of reg name = None"
  shows "execute_as e reg u cmdline invoker d = (Inr (''unknown command '' @ sq name), d)"
  using assms by (simp add: execute_as_def)

lemma execute_as_denied:
  assumes "shlex_split cmdline = Inr (name # args)" and "map_of reg name = Some (fn, Some r)"
    and "r \<noteq> []" and "\<not> has_perm (users d) u r"
  shows "execute_as e reg u cmdline invoker d
       = (Inr (''user '' @ sq u @ '' lacks '' @ sq r @ '' permission''), d)"
  using assms by (simp add: execute_as_def)

lemma execute_as_allowed:
  assumes "shlex_split cmdline = Inr (name # args)" and "map_of reg name = Some (fn, required)"
    and "\<forall>r. required = Some r \<and> r \<noteq> [] \<longrightarrow> has_perm (users d) u r"
  shows "execute_as e reg u cmdline invoker d
       = (case call_handler e reg fn u args (users d) of
            (Inr result, us) \<Rightarrow> (Inr result, d\<lparr>users := us\<rparr>)
          | (Inl x, us) \<Rightarrow> (Inr (''error: '' @ exc_message x), d\<lparr>users := us\<rparr>))"
  using assms by (auto simp: execute_as_def split: option.splits)

section \<open>The user store: claims\<close>

text \<open>
  Claim C4, as amended. After \<^verbatim>\<open>add_perm(u, p)\<close>, \<^verbatim>\<open>has_perm(u, p)\<close> is true, for
  every store. After the \<^verbatim>\<open>remove_perm(u, p)\<close> that follows, \<^verbatim>\<open>has_perm(u, p)\<close> is
  false again provided the permission list of \<open>u\<close> held \<open>p\<close> at most once and did not
  hold the wildcard \<^verbatim>\<open>*\<close> as another permission than \<open>p\<close>.
\<close>

theorem perm_round_trip:
  assumes "count_list (list_perms us u) p \<le> 1"
    and "''*'' \<in> set (list_perms us u) \<longrightarrow> p = ''*''"
  shows "has_perm (add_perm u p us) u p
       \<and> \<not> has_perm (remove_perm u p (add_perm u p us)) u p"
  using assms by (simp add: has_perm_add_perm has_perm_remove_add)

theorem perm_round_trip_witness:
  "count_list (list_perms example_users ''bob'') ''view'' \<le> 1
   \<and> ''*'' \<notin> set (list_perms example_users ''bob'')
   \<and> has_perm (add_perm ''bob'' ''view'' example_users) ''bob'' ''view''
   \<and> \<not> has_perm (remove_perm ''bob'' ''view'' (add_perm ''bob'' ''view'' example_users))
         ''bob'' ''view''"
proof -
  have c: "count_list (list_perms example_users ''bob'') ''view'' \<le> 1"
    by (simp add: list_perms_def example_users_def)
  have w: "''*'' \<in> set (list_perms example_users ''bob'') \<longrightarrow> ''view'' = ''*''"
    by (simp add: list_perms_def example_users_def)
  have n: "''*'' \<notin> set (list_perms example_users ''bob'')"
    by (simp add: list_perms_def example_users_def)
  from perm_round_trip [OF c w] c n show ?thesis
    by simp
qed

text \<open>
  Claim C4 as stated (no precondition on the other permissions of \<open>u\<close>) fails for a user
  who holds the wildcard: \<^verbatim>\<open>admin\<close> still has \<^verbatim>\<open>say\<close> after it was added and removed.
\<close>

theorem perm_round_trip_counterexample:
  "has_perm (remove_perm ''admin'' ''say'' (add_perm ''admin'' ''say'' example_users))
     ''admin'' ''say''"
  by (simp add: has_perm_def remove_perm_def add_perm_def ensure_user_def Let_def
      example_users_def)

text \<open>
  Claim C7. \<^verbatim>\<open>check_password(name, plain)\<close> is false when the user is unknown or has no
  password record; and \<^verbatim>\<open>check_password(u, p)\<close> is true right after
  \<^verbatim>\<open>set_password(u, p)\<close>, whatever the store was, the salt drawn and the hash function
  (the same in both calls).
\<close>

theorem check_password_correct:
  assumes "sha256 e' = sha256 e"
  shows "(map_of us name = None \<longrightarrow> check_password e us name plain = Inr False)
       \<and> (\<forall>usr. map_of us name = Some usr \<and> password usr = None
            \<longrightarrow> check_password e us name plain = Inr False)
       \<and> check_password e' (set_password e u p us) u p = Inr True"
proof (intro conjI)
  show "map_of us name = None \<longrightarrow> check_password e us name plain = Inr False"
    by (simp add: check_password_def)
  show "\<forall>usr. map_of us name = Some usr \<and> password usr = None
          \<longrightarrow> check_password e us name plain = Inr False"
    by (simp add: check_password_def)
  from assms show "check_password e' (set_password e u p us) u p = Inr True"
    by (rule check_after_set)
qed

theorem check_password_correct_witness:
  "sha256 example_env = sha256 example_env
   \<and> map_of example_users ''erin'' = None
   \<and> check_password example_env example_users ''erin'' ''pw'' = Inr False
   \<and> map_of example_users ''alice'' = Some \<lparr>perms = [''say'', ''sudo''], password = None\<rparr>
   \<and> check_password example_env example_users ''alice'' ''pw'' = Inr False
   \<and> check_password example_env (set_password example_env ''alice'' ''pw'' example_users)
        ''alice'' ''pw'' = Inr True"
proof -
  have d: "map_of example_users ''erin'' = None"
    by (simp add: example_users_def)
  have a: "map_of example_users ''alice'' = Some \<lparr>perms = [''say'', ''sudo''], password = None\<rparr>"
    by (simp add: example_users_def)
  have "check_password example_env example_users ''erin'' ''pw'' = Inr False"
    using check_password_correct [of example_env example_env example_users "''erin''"] d
    by simp
  moreover have "check_password example_env example_users ''alice'' ''pw'' = Inr False"
    using check_password_correct [of example_env example_env example_users "''alice''"] a
    by simp
  moreover have "check_password example_env
      (set_password example_env ''alice'' ''pw'' example_users) ''alice'' ''pw'' = Inr True"
    using check_password_correct [of example_env example_env] by simp
  ultimately show ?thesis
    using d a by simp
qed

section \<open>The dispatcher: claims\<close>

text \<open>
  Claim C1, as amended. For every invoker and every command line that \<^verbatim>\<open>shlex.split\<close>
  accepts, \<^verbatim>\<open>run\<close> returns a string and raises nothing, when the two other places
  that can raise outside the handler stay silent: on the one-shot path the command
  joined again from the tokens is accepted by \<^verbatim>\<open>shlex.split\<close>, and on the session path
  the time to live is in the range of a float. Under every acting user, an unknown
  command and a missing permission come back as strings, and an exception raised by
  the handler comes back as \<^verbatim>\<open>error: \<close> followed by its message.
\<close>

theorem run_fail_soft:
  assumes "shlex_split cmdline = Inr parts"
    and "\<forall>target c rest. parts = ''sudo'' # ''-u'' # target # c # rest
           \<longrightarrow> (\<exists>ps. shlex_split (join '' '' (c # rest)) = Inr ps)"
    and "\<forall>target rest. parts = ''sudo'' # ''-i'' # ''-u'' # target # rest
           \<longrightarrow> \<bar>session_ttl e parts\<bar> < float_max_int"
  shows "(\<exists>s. fst (run e reg invoker cmdline d) = Inr s)
       \<and> (\<forall>name args. shlex_split line = Inr (name # args) \<and> map_of reg name = None
            \<longrightarrow> execute_as e reg u line invoker d = (Inr (''unknown command '' @ sq name), d))
       \<and> (\<forall>name args fn r. shlex_split line = Inr (name # args)
              \<and> map_of reg name = Some (fn, Some r) \<and> r \<noteq> [] \<and> \<not> has_perm (users d) u r
            \<longrightarrow> execute_as e reg u line invoker d
                = (Inr (''user '' @ sq u @ '' lacks '' @ sq r @ '' permission''), d))
       \<and> (\<forall>name args fn required x us. shlex_split line = Inr (name # args)
              \<and> map_of reg name = Some (fn, required)
              \<and> (\<forall>r. required = Some r \<and> r \<noteq> [] \<longrightarrow> has_perm (users d) u r)
              \<and> call_handler e reg fn u args (users d) = (Inl x, us)
            \<longrightarrow> execute_as e reg u line invoker d
                = (Inr (''error: '' @ exc_message x), d\<lparr>users := us\<rparr>))"
proof (intro conjI allI impI)
  show "\<exists>s. fst (run e reg invoker cmdline d) = Inr s"
    using assms by (rule run_returns)
next
  fix name args
  assume "shlex_split line = Inr (name # args) \<and> map_of reg name = None"
  then show "execute_as e reg u line invoker d = (Inr (''unknown command '' @ sq name), d)"
    by (simp add: execute_as_unknown)
next
  fix name args fn r
  assume "shlex_split line = Inr (name # args)
      \<and> map_of reg name = Some (fn, Some r) \<and> r \<noteq> [] \<and> \<not> has_perm (users d) u r"
  then show "execute_as e reg u line invoker d
      = (Inr (''user '' @ sq u @ '' lacks '' @ sq r @ '' permission''), d)"
    by (simp add: execute_as_denied)
next
  fix name args fn required x us
  assume a: "shlex_split line = Inr (name # args)
      \<and> map_of reg name = Some (fn, required)
      \<and> (\<forall>r. required = Some r \<and> r \<noteq> [] \<longrightarrow> has_perm (users d) u r)
      \<and> call_handler e reg fn u args (users d) = (Inl x, us)"
  then have "execute_as e reg u line invoker d
      = (case call_handler e reg fn u args (users d) of
           (Inr result, us) \<Rightarrow> (Inr result, d\<lparr>users := us\<rparr>)
         | (Inl x, us) \<Rightarrow> (Inr (''error: '' @ exc_message x), d\<lparr>users := us\<rparr>))"
    by (intro execute_as_allowed) auto
  with a show "execute_as e reg u line invoker d
      = (Inr (''error: '' @ exc_message x), d\<lparr>users := us\<rparr>)"
    by simp
qed

text \<open>
  A witness: \<^verbatim>\<open>alice\<close> runs \<^verbatim>\<open>grant\<close> as \<^verbatim>\<open>admin\<close> with one argument too few. The handler
  raises \<^verbatim>\<open>TypeError\<close>, and the caller gets the message as a string.
\<close>

theorem run_fail_soft_witness:
  "shlex_split ''sudo -u admin grant bob'' = Inr [''sudo'', ''-u'', ''admin'', ''grant'', ''bob'']
   \<and> shlex_split ''grant bob'' = Inr [''grant'', ''bob'']
   \<and> (\<exists>s. fst (run example_env app_registry ''alice'' ''sudo -u admin grant bob''
                  example_dispatcher) = Inr s)
   \<and> call_handler example_env app_registry Cmd_grant ''admin'' [''bob''] example_users
       = (Inl (TypeError (''cmd_grant() missing 1 required positional argument: '' @ sq ''perm'')),
          example_users)
   \<and> execute_as example_env app_registry ''admin'' ''grant bob'' ''alice'' example_dispatcher
       = (Inr (''error: cmd_grant() missing 1 required positional argument: '' @ sq ''perm''),
          example_dispatcher)"
proof -
  let ?parts = "[''sudo'', ''-u'', ''admin'', ''grant'', ''bob'']"
  have sp: "shlex_split ''sudo -u admin grant bob'' = Inr ?parts"
    by (simp add: lex_defs)
  have sp2: "shlex_split ''grant bob'' = Inr [''grant'', ''bob'']"
    by (simp add: lex_defs)
  have h2: "\<forall>target c rest. ?parts = ''sudo'' # ''-u'' # target # c # rest
      \<longrightarrow> (\<exists>ps. shlex_split (join '' '' (c # rest)) = Inr ps)"
    using sp2 by auto
  have h3: "\<forall>target rest. ?parts = ''sudo'' # ''-i'' # ''-u'' # target # rest
      \<longrightarrow> \<bar>session_ttl example_env ?parts\<bar> < float_max_int"
    by simp
  have n: "str_nat (Suc 0) = ''1''"
    by code_simp
  have ch: "call_handler example_env app_registry Cmd_grant ''admin'' [''bob''] example_users
      = (Inl (TypeError (''cmd_grant() missing 1 required positional argument: '' @ sq ''perm'')),
         example_users)"
    by (simp add: call_handler_def arity_error_def missing_names_def n)
  have reg: "map_of app_registry ''grant'' = Some (Cmd_grant, Some ''admin'')"
    by (simp add: app_registry_eq)
  have perm: "\<forall>r. Some ''admin'' = Some r \<and> r \<noteq> [] \<longrightarrow> has_perm example_users ''admin'' r"
    by (simp add: has_perm_def example_users_def)
  have us: "users example_dispatcher = example_users"
    by (simp add: example_dispatcher_def)
  note t = run_fail_soft [where e = example_env and reg = app_registry and invoker = "''alice''"
      and d = example_dispatcher and line = "''grant bob''" and u = "''admin''", OF sp h2 h3]
  from t have "\<exists>s. fst (run example_env app_registry ''alice'' ''sudo -u admin grant bob''
      example_dispatcher) = Inr s"
    by (rule conjunct1)
  moreover
  note t4 = t [THEN conjunct2, THEN conjunct2, THEN conjunct2, rule_format,
      where name = "''grant''" and args = "[''bob'']" and fn = Cmd_grant
        and required = "Some ''admin''" and us = example_users]
  have "execute_as example_env app_registry ''admin'' ''grant bob'' ''alice'' example_dispatcher
      = (Inr (''error: '' @ exc_message (TypeError
            (''cmd_grant() missing 1 required positional argument: '' @ sq ''perm''))),
         example_dispatcher\<lparr>users := example_users\<rparr>)"
    by (rule t4) (simp only: us, intro conjI sp2 reg perm ch)
  then have "execute_as example_env app_registry ''admin'' ''grant bob'' ''alice'' example_dispatcher
       = (Inr (''error: cmd_grant() missing 1 required positional argument: '' @ sq ''perm''),
          example_dispatcher)"
    by (simp add: example_dispatcher_def)
  ultimately show ?thesis
    using sp sp2 ch by simp
qed

text \<open>
  Claim C1 as stated (every command line) fails: \<^verbatim>\<open>shlex.split\<close> stands outside
  \<^verbatim>\<open>try\<close>, and a command line with an open quotation makes \<^verbatim>\<open>run\<close> raise
  \<^verbatim>\<open>ValueError\<close> to its caller.
\<close>

theorem run_fail_soft_counterexample:
  "fst (run example_env app_registry ''alice'' ''say \"hello'' example_dispatcher)
     = Inl (ValueError ''No closing quotation'')"
  by (simp add: run_def lex_defs)

text \<open>
  Claim C2 fails on the code. The one-shot path joins the tokens after the target with
  single blanks and hands the text to \<^verbatim>\<open>_execute_as\<close>, which splits it again (lines 167
  and 136): the quotation is gone, and \<open>a b\<close> reaches the handler as two arguments. As
  \<^verbatim>\<open>admin\<close> itself the same command line delivers one argument and creates the user.
\<close>

theorem sudo_loses_quotation:
  "shlex_split ''create_user \"a b\"'' = Inr [''create_user'', ''a b'']
   \<and> run example_env app_registry ''admin'' ''create_user \"a b\"'' example_dispatcher
     = (Inr (''user '' @ sq ''a b'' @ '' created''),
        example_dispatcher\<lparr>users := ensure_user ''a b'' example_users\<rparr>)
   \<and> shlex_split ''sudo -u admin create_user \"a b\"''
     = Inr [''sudo'', ''-u'', ''admin'', ''create_user'', ''a b'']
   \<and> shlex_split (join '' '' [''create_user'', ''a b'']) = Inr [''create_user'', ''a'', ''b'']
   \<and> run example_env app_registry ''alice'' ''sudo -u admin create_user \"a b\"''
         example_dispatcher
     = (Inr ''error: cmd_create_user() takes 2 positional arguments but 3 were given'',
        example_dispatcher)"
proof -
  have sp: "shlex_split ''sudo -u admin create_user \"a b\"''
      = Inr [''sudo'', ''-u'', ''admin'', ''create_user'', ''a b'']"
    by (simp add: lex_defs)
  have sp2: "shlex_split ''create_user a b'' = Inr [''create_user'', ''a'', ''b'']"
    by (simp add: lex_defs)
  have sp3: "shlex_split ''create_user \"a b\"'' = Inr [''create_user'', ''a b'']"
    by (simp add: lex_defs)
  have n: "str_nat (Suc (Suc 0)) = ''2''" "str_nat (Suc (Suc (Suc 0))) = ''3''"
    by code_simp+
  have direct: "run example_env app_registry ''admin'' ''create_user \"a b\"'' example_dispatcher
      = (Inr (''user '' @ sq ''a b'' @ '' created''),
         example_dispatcher\<lparr>users := ensure_user ''a b'' example_users\<rparr>)"
    by (simp add: run_plain [OF sp3] example_dispatcher_def execute_as_def sp3 app_registry_eq
        has_perm_def example_users_def call_handler_def cmd_create_user_def)
  have elevated: "run example_env app_registry ''alice'' ''sudo -u admin create_user \"a b\"''
        example_dispatcher
      = (Inr ''error: cmd_create_user() takes 2 positional arguments but 3 were given'',
         example_dispatcher)"
    by (simp add: run_sudo_u [OF sp] example_dispatcher_def execute_as_def sp2 app_registry_eq
        has_perm_def example_users_def call_handler_def arity_error_def n)
  from sp sp2 sp3 direct elevated show ?thesis
    by simp
qed

text \<open>
  Claim C3 fails on the code. The decorators register \<^verbatim>\<open>grant\<close> and \<^verbatim>\<open>revoke\<close> with the
  permission \<^verbatim>\<open>grant\<close> (lines 208 and 213), but \<^verbatim>\<open>BotCreatorOS.__init__\<close> registers them
  again with \<^verbatim>\<open>admin\<close> (lines 726 and 727), and that is the registry every dispatch of
  the application reads. \<^verbatim>\<open>carol\<close>, who holds \<^verbatim>\<open>grant\<close>, is refused; \<^verbatim>\<open>dave\<close>, who holds
  \<^verbatim>\<open>admin\<close> and not \<^verbatim>\<open>grant\<close>, is served.
\<close>

theorem grant_requires_admin:
  "map_of module_registry ''grant'' = Some (Cmd_grant, Some ''grant'')
   \<and> map_of module_registry ''revoke'' = Some (Cmd_revoke, Some ''grant'')
   \<and> map_of app_registry ''grant'' = Some (Cmd_grant, Some ''admin'')
   \<and> map_of app_registry ''revoke'' = Some (Cmd_revoke, Some ''admin'')
   \<and> has_perm example_users ''carol'' ''grant''
   \<and> run example_env app_registry ''carol'' ''grant bob view'' example_dispatcher
     = (Inr (''user '' @ sq ''carol'' @ '' lacks '' @ sq ''admin'' @ '' permission''),
        example_dispatcher)
   \<and> \<not> has_perm example_users ''dave'' ''grant''
   \<and> run example_env app_registry ''dave'' ''grant bob view'' example_dispatcher
     = (Inr (''dave granted '' @ sq ''view'' @ '' to bob''),
        example_dispatcher\<lparr>users := add_perm ''bob'' ''view'' example_users\<rparr>)"
proof -
  have sp: "shlex_split ''grant bob view'' = Inr [''grant'', ''bob'', ''view'']"
    by (simp add: lex_defs)
  have carol: "run example_env app_registry ''carol'' ''grant bob view'' example_dispatcher
      = (Inr (''user '' @ sq ''carol'' @ '' lacks '' @ sq ''admin'' @ '' permission''),
         example_dispatcher)"
    by (simp add: run_plain [OF sp] example_dispatcher_def execute_as_def sp app_registry_eq
        has_perm_def example_users_def)
  have dave: "run example_env app_registry ''dave'' ''grant bob view'' example_dispatcher
      = (Inr (''dave granted '' @ sq ''view'' @ '' to bob''),
         example_dispatcher\<lparr>users := add_perm ''bob'' ''view'' example_users\<rparr>)"
    by (simp add: run_plain [OF sp] example_dispatcher_def execute_as_def sp app_registry_eq
        has_perm_def example_users_def call_handler_def cmd_grant_def)
  have "has_perm example_users ''carol'' ''grant''" "\<not> has_perm example_users ''dave'' ''grant''"
    by (simp_all add: has_perm_def example_users_def)
  with carol dave show ?thesis
    by (simp add: app_registry_eq module_registry_eq)
qed

text \<open>
  Claim C5, as amended. On \<^verbatim>\<open>sudo -i -u <target> [ttl]\<close> the time to live is the fifth
  token read as an integer, and 300 when there is no fifth token or it is not an
  integer. An invoker with the \<^verbatim>\<open>sudo\<close> permission gets the confirmation naming the
  target and the time to live, and the session of the invoker becomes
  \<open>(target, now + ttl)\<close>, the sum being the double that float addition gives (the
  time to live rounded to a double, and the sum rounded again), provided the magnitude of the time to live is below
  \<open>2^1024 - 2^970\<close>; the store is untouched and the registry is not consulted, so no
  command is executed. An invoker without the permission gets the denial, and the
  dispatcher is left as it was.
\<close>

theorem session_elevation:
  assumes "shlex_split cmdline = Inr parts"
    and "parts = ''sudo'' # ''-i'' # ''-u'' # target # rest"
  shows "(rest = [] \<longrightarrow> session_ttl e parts = 300)
       \<and> (\<forall>tok more. rest = tok # more \<longrightarrow> session_ttl e parts
             = (case py_int (int_max_str_digits e) tok of Some n \<Rightarrow> n | None \<Rightarrow> 300))
       \<and> (has_perm (users d) invoker ''sudo'' \<and> \<bar>session_ttl e parts\<bar> < float_max_int \<longrightarrow>
            run e reg invoker cmdline d
            = (Inr (''impersonating '' @ target @ '' for '' @ str_int (session_ttl e parts)
                    @ '' seconds''),
               d\<lparr>sessions := (sessions d)
                    (invoker \<mapsto>
                       (target, float_round e
                          (now e + float_round e (of_int (session_ttl e parts)))))\<rparr>))
       \<and> (\<not> has_perm (users d) invoker ''sudo'' \<longrightarrow>
            run e reg invoker cmdline d
            = (Inr (''invoker '' @ sq invoker @ '' lacks '' @ sq ''sudo'' @ '' permission''), d))"
  using assms
  by (auto simp: run_sudo_i session_ttl_def float_add_int_def float_sum_def)

text \<open>
  Witnesses: \<^verbatim>\<open>alice\<close> (who holds \<^verbatim>\<open>sudo\<close>) starts a session of 60 seconds as \<^verbatim>\<open>bob\<close> at
  time 1000 over an expired one, and one with a time to live that is no integer;
  \<^verbatim>\<open>bob\<close> (who does not) is refused.
\<close>

theorem session_elevation_witness:
  "shlex_split ''sudo -i -u bob 60'' = Inr [''sudo'', ''-i'', ''-u'', ''bob'', ''60'']
   \<and> has_perm (users expired_dispatcher) ''alice'' ''sudo''
   \<and> run example_env module_registry ''alice'' ''sudo -i -u bob 60'' expired_dispatcher
     = (Inr ''impersonating bob for 60 seconds'',
        expired_dispatcher\<lparr>sessions := [''alice'' \<mapsto> (''bob'', 1060)]\<rparr>)
   \<and> shlex_split ''sudo -i -u bob soon'' = Inr [''sudo'', ''-i'', ''-u'', ''bob'', ''soon'']
   \<and> run example_env module_registry ''alice'' ''sudo -i -u bob soon'' expired_dispatcher
     = (Inr ''impersonating bob for 300 seconds'',
        expired_dispatcher\<lparr>sessions := [''alice'' \<mapsto> (''bob'', 1300)]\<rparr>)
   \<and> shlex_split ''sudo -i -u admin'' = Inr [''sudo'', ''-i'', ''-u'', ''admin'']
   \<and> \<not> has_perm (users expired_dispatcher) ''bob'' ''sudo''
   \<and> run example_env module_registry ''bob'' ''sudo -i -u admin'' expired_dispatcher
     = (Inr (''invoker '' @ sq ''bob'' @ '' lacks '' @ sq ''sudo'' @ '' permission''),
        expired_dispatcher)"
proof -
  have sp1: "shlex_split ''sudo -i -u bob 60'' = Inr [''sudo'', ''-i'', ''-u'', ''bob'', ''60'']"
    and sp2: "shlex_split ''sudo -i -u bob soon'' = Inr [''sudo'', ''-i'', ''-u'', ''bob'', ''soon'']"
    and sp3: "shlex_split ''sudo -i -u admin'' = Inr [''sudo'', ''-i'', ''-u'', ''admin'']"
    by (simp_all add: lex_defs)
  have pa: "has_perm (users expired_dispatcher) ''alice'' ''sudo''"
    and pb: "\<not> has_perm (users expired_dispatcher) ''bob'' ''sudo''"
    by (simp_all add: has_perm_def expired_dispatcher_def example_users_def)
  have i1: "py_int 4300 ''60'' = Some 60" and i2: "py_int 4300 ''soon'' = None"
    by code_simp+
  have s1: "str_int 60 = ''60''" and s2: "str_int 300 = ''300''"
    by code_simp+
  have t1: "session_ttl example_env [''sudo'', ''-i'', ''-u'', ''bob'', ''60''] = 60"
    and t2: "session_ttl example_env [''sudo'', ''-i'', ''-u'', ''bob'', ''soon''] = 300"
    by (simp_all add: session_ttl_def example_env_def i1 i2)
  have b1: "\<bar>60 :: int\<bar> < float_max_int" and b2: "\<bar>300 :: int\<bar> < float_max_int"
    by (simp_all add: float_max_int_def)
  have n: "float_round example_env (now example_env + float_round example_env 60) = 1060"
    "float_round example_env (now example_env + float_round example_env 300) = 1300"
    by (simp_all add: example_env_def)
  have u: "\<And>x y. (sessions expired_dispatcher)(''alice'' \<mapsto> x) = [''alice'' \<mapsto> x]"
    by (simp add: expired_dispatcher_def)
  have r1: "run example_env module_registry ''alice'' ''sudo -i -u bob 60'' expired_dispatcher
     = (Inr ''impersonating bob for 60 seconds'',
        expired_dispatcher\<lparr>sessions := [''alice'' \<mapsto> (''bob'', 1060)]\<rparr>)"
    using session_elevation [OF sp1 refl, of example_env expired_dispatcher "''alice''"
        module_registry] pa b1
    by (simp add: t1 s1 n u)
  have r2: "run example_env module_registry ''alice'' ''sudo -i -u bob soon'' expired_dispatcher
     = (Inr ''impersonating bob for 300 seconds'',
        expired_dispatcher\<lparr>sessions := [''alice'' \<mapsto> (''bob'', 1300)]\<rparr>)"
    using session_elevation [OF sp2 refl, of example_env expired_dispatcher "''alice''"
        module_registry] pa b2
    by (simp add: t2 s2 n u)
  have r3: "run example_env module_registry ''bob'' ''sudo -i -u admin'' expired_dispatcher
     = (Inr (''invoker '' @ sq ''bob'' @ '' lacks '' @ sq ''sudo'' @ '' permission''),
        expired_dispatcher)"
    using session_elevation [OF sp3 refl, of example_env expired_dispatcher "''bob''"
        module_registry] pb
    by simp
  from sp1 sp2 sp3 pa pb r1 r2 r3 show ?thesis
    by simp
qed

text \<open>
  Claim C5 as stated (every time to live) fails when the fifth token is an integer too
  large for a float: \<^verbatim>\<open>time.time() + ttl\<close> raises \<^verbatim>\<open>OverflowError\<close>, \<^verbatim>\<open>run\<close> passes it
  to its caller, and no session is installed. Here the token is 1 followed by 400
  zeros.
\<close>

theorem session_elevation_counterexample:
  "run example_env app_registry ''alice'' (''sudo -i -u bob 1'' @ replicate 400 CHR ''0'')
     example_dispatcher
   = (Inl (OverflowError ''int too large to convert to float''), example_dispatcher)"
proof -
  have sp: "shlex_split (''sudo -i -u bob 1'' @ replicate 400 CHR ''0'')
      = Inr [''sudo'', ''-i'', ''-u'', ''bob'', ''1'' @ replicate 400 CHR ''0'']"
    by (simp add: lex_defs lex_zeros)
  have pi: "py_int 4300 (''1'' @ replicate 400 CHR ''0'') = Some (10 ^ 400)"
    using py_int_digits(1) [of "''1'' @ replicate 400 CHR ''0''" 4300]
    by (simp add: digits_value_one_zeros is_digit_def list_all_iff)
  have ttl: "session_ttl example_env
       [''sudo'', ''-i'', ''-u'', ''bob'', ''1'' @ replicate 400 CHR ''0''] = 10 ^ 400"
    using pi by (simp add: session_ttl_def example_env_def)
  have hp: "has_perm (users example_dispatcher) ''alice'' ''sudo''"
    by (simp add: has_perm_def example_dispatcher_def example_users_def)
  have f: "float_add_int (float_round example_env) (now example_env) (10 ^ 400)
      = Inl (OverflowError ''int too large to convert to float'')"
    using float_max_int_less by (simp add: float_add_int_def)
  show ?thesis
    unfolding run_sudo_i [OF sp refl] ttl f using hp by simp
qed

text \<open>
  Claim C6. When the session of the invoker has \<open>expires \<le> now\<close>, a command line whose
  first token is not \<^verbatim>\<open>sudo\<close> is executed as the invoker itself on the dispatcher
  without that session, and no session of the invoker is left afterwards.
\<close>

theorem lazy_session_expiry:
  assumes "shlex_split cmdline = Inr (name # args)" and "name \<noteq> ''sudo''"
    and "sessions d invoker = Some (target, expires)" and "expires \<le> now e"
  shows "run e reg invoker cmdline d
         = execute_as e reg invoker cmdline invoker
             (d\<lparr>sessions := (sessions d)(invoker := None)\<rparr>)
       \<and> sessions (snd (run e reg invoker cmdline d)) invoker = None"
  using assms by (simp add: run_plain sessions_execute_as)

text \<open>
  A witness: at time 1000 \<^verbatim>\<open>alice\<close>, whose session as \<^verbatim>\<open>bob\<close> ended at 900, asks
  \<^verbatim>\<open>whoami\<close> and is herself again.
\<close>

theorem lazy_session_expiry_witness:
  "shlex_split ''whoami'' = Inr [''whoami'']
   \<and> sessions expired_dispatcher ''alice'' = Some (''bob'', 900)
   \<and> 900 \<le> now example_env
   \<and> run example_env app_registry ''alice'' ''whoami'' expired_dispatcher
     = (Inr ''you are alice'', example_dispatcher)
   \<and> sessions (snd (run example_env app_registry ''alice'' ''whoami'' expired_dispatcher))
        ''alice'' = None"
proof -
  have sp: "shlex_split ''whoami'' = Inr [''whoami'']"
    by (simp add: lex_defs)
  have ne: "''whoami'' \<noteq> ''sudo''"
    by simp
  have se: "sessions expired_dispatcher ''alice'' = Some (''bob'', 900)"
    by (simp add: expired_dispatcher_def)
  have le: "900 \<le> now example_env"
    by (simp add: example_env_def)
  have d: "expired_dispatcher\<lparr>sessions := (sessions expired_dispatcher)(''alice'' := None)\<rparr>
      = example_dispatcher"
    by (simp add: expired_dispatcher_def example_dispatcher_def)
  have ex: "execute_as example_env app_registry ''alice'' ''whoami'' ''alice'' example_dispatcher
      = (Inr ''you are alice'', example_dispatcher)"
    by (simp add: execute_as_def sp app_registry_eq call_handler_def cmd_whoami_def)
  note t = lazy_session_expiry [OF sp ne se le, of app_registry]
  from t [THEN conjunct1]
  have r: "run example_env app_registry ''alice'' ''whoami'' expired_dispatcher
      = (Inr ''you are alice'', example_dispatcher)"
    unfolding d ex .
  from r t [THEN conjunct2] sp se le show ?thesis
    by simp
qed

text \<open>
  Claim C8. An acting user who holds \<^verbatim>\<open>admin\<close> but not \<^verbatim>\<open>change_others_password\<close> (and so
  not the wildcard), and who asks to change the password of another user, gets the
  dedicated denial, and nothing in the dispatcher changes; that holds when the user
  issues the command without a session too.
\<close>

theorem change_password_denied:
  assumes "shlex_split cmdline = Inr [''change_password'', who, new_plain]"
    and "has_perm (users d) u ''admin''" and "who \<noteq> u"
    and "\<not> has_perm (users d) u ''change_others_password''"
  shows "execute_as e app_registry u cmdline invoker d
         = (Inr (''no permission to change others'' @ [CHR 0x27] @ '' password''), d)
       \<and> (sessions d u = None \<longrightarrow> run e app_registry u cmdline d
         = (Inr (''no permission to change others'' @ [CHR 0x27] @ '' password''), d))"
  using assms
  by (simp add: run_plain execute_as_def app_registry_eq call_handler_def
      cmd_change_password_def)

text \<open>A witness: \<^verbatim>\<open>dave\<close>, who holds \<^verbatim>\<open>admin\<close> only, on the password of \<^verbatim>\<open>bob\<close>.\<close>

theorem change_password_denied_witness:
  "shlex_split ''change_password bob secret'' = Inr [''change_password'', ''bob'', ''secret'']
   \<and> has_perm (users example_dispatcher) ''dave'' ''admin''
   \<and> ''bob'' \<noteq> ''dave''
   \<and> \<not> has_perm (users example_dispatcher) ''dave'' ''change_others_password''
   \<and> sessions example_dispatcher ''dave'' = None
   \<and> run example_env app_registry ''dave'' ''change_password bob secret'' example_dispatcher
     = (Inr (''no permission to change others'' @ [CHR 0x27] @ '' password''),
        example_dispatcher)"
proof -
  have sp: "shlex_split ''change_password bob secret''
      = Inr [''change_password'', ''bob'', ''secret'']"
    by (simp add: lex_defs)
  have a: "has_perm (users example_dispatcher) ''dave'' ''admin''"
    and c: "\<not> has_perm (users example_dispatcher) ''dave'' ''change_others_password''"
    by (simp_all add: has_perm_def example_dispatcher_def example_users_def)
  have ne: "''bob'' \<noteq> ''dave''"
    by simp
  have s: "sessions example_dispatcher ''dave'' = None"
    by (simp add: example_dispatcher_def)
  from change_password_denied [OF sp a ne c, of example_env "''dave''"] sp a c s show ?thesis
    by simp
qed

text \<open>
  Claim C9. On \<^verbatim>\<open>sudo -u <target> <command...>\<close> by an invoker with the \<^verbatim>\<open>sudo\<close>
  permission, a target that is not in the store is no obstacle: a command registered
  without a permission is handed to its handler with the target as acting user, and
  \<^verbatim>\<open>whoami\<close> answers with the name of the target.
\<close>

theorem sudo_unknown_target:
  assumes "shlex_split cmdline = Inr (''sudo'' # ''-u'' # target # c # rest)"
    and "has_perm (users d) invoker ''sudo''"
    and "map_of (users d) target = None"
    and "shlex_split (join '' '' (c # rest)) = Inr (name # args)"
    and "map_of reg name = Some (fn, None)"
  shows "run e reg invoker cmdline d
         = (case call_handler e reg fn target args (users d) of
              (Inr result, us) \<Rightarrow> (Inr result, d\<lparr>users := us\<rparr>)
            | (Inl x, us) \<Rightarrow> (Inr (''error: '' @ exc_message x), d\<lparr>users := us\<rparr>))
       \<and> (fn = Cmd_whoami \<and> args = []
            \<longrightarrow> run e reg invoker cmdline d = (Inr (''you are '' @ target), d))"
  using assms
  by (auto simp: run_sudo_u execute_as_def call_handler_def cmd_whoami_def)

text \<open>A witness: \<^verbatim>\<open>alice\<close> as \<^verbatim>\<open>ghost\<close>, a name the store does not know.\<close>

theorem sudo_unknown_target_witness:
  "shlex_split ''sudo -u ghost whoami'' = Inr [''sudo'', ''-u'', ''ghost'', ''whoami'']
   \<and> has_perm (users example_dispatcher) ''alice'' ''sudo''
   \<and> map_of (users example_dispatcher) ''ghost'' = None
   \<and> shlex_split (join '' '' [''whoami'']) = Inr [''whoami'']
   \<and> map_of app_registry ''whoami'' = Some (Cmd_whoami, None)
   \<and> run example_env app_registry ''alice'' ''sudo -u ghost whoami'' example_dispatcher
     = (Inr ''you are ghost'', example_dispatcher)"
proof -
  have sp: "shlex_split ''sudo -u ghost whoami'' = Inr [''sudo'', ''-u'', ''ghost'', ''whoami'']"
    by (simp add: lex_defs)
  have sp2: "shlex_split (join '' '' [''whoami'']) = Inr [''whoami'']"
    by (simp add: lex_defs)
  have p: "has_perm (users example_dispatcher) ''alice'' ''sudo''"
    by (simp add: has_perm_def example_dispatcher_def example_users_def)
  have g: "map_of (users example_dispatcher) ''ghost'' = None"
    by (simp add: example_dispatcher_def example_users_def)
  have r: "map_of app_registry ''whoami'' = Some (Cmd_whoami, None)"
    by (simp add: app_registry_eq)
  from sudo_unknown_target [OF sp p g sp2 r, of example_env, THEN conjunct2]
  have "run example_env app_registry ''alice'' ''sudo -u ghost whoami'' example_dispatcher
      = (Inr ''you are ghost'', example_dispatcher)"
    by simp
  with sp sp2 p g r show ?thesis
    by simp
qed

text \<open>
  Claim C10, as amended. For an invoker with the \<^verbatim>\<open>sudo\<close> permission and a time to
  live \<open>ttl \<le> 0\<close> above \<open>- (2^1024 - 2^970)\<close>, \<^verbatim>\<open>sudo -i -u <target> <ttl>\<close> returns the
  confirmation for \<open>ttl\<close> seconds and installs a session that expires at \<open>now + ttl\<close>
  (the double that float addition gives), which is not in the future. The next command
  line of the invoker whose first token is not \<^verbatim>\<open>sudo\<close>, read at a clock that has not
  gone back, is executed as the invoker itself, and no session of the invoker is left
  afterwards. Of the rounding only this is used: it is monotone, and it leaves 0 and the
  reading of the clock, which are doubles, as they are.
\<close>

theorem nonpositive_ttl:
  assumes "shlex_split cmdline = Inr (''sudo'' # ''-i'' # ''-u'' # target # tok # rest)"
    and "py_int (int_max_str_digits e) tok = Some ttl"
    and "ttl \<le> 0" and "- float_max_int < ttl"
    and "has_perm (users d) invoker ''sudo''"
    and "shlex_split next_line = Inr (name # args)" and "name \<noteq> ''sudo''"
    and "now e \<le> now e'"
    and "mono (float_round e)" and "float_round e 0 = 0" and "float_round e (now e) = now e"
  shows "run e reg invoker cmdline d
         = (Inr (''impersonating '' @ target @ '' for '' @ str_int ttl @ '' seconds''),
            d\<lparr>sessions := (sessions d)
                 (invoker \<mapsto> (target, float_round e (now e + float_round e (of_int ttl))))\<rparr>)
       \<and> float_round e (now e + float_round e (of_int ttl)) \<le> now e
       \<and> run e' reg invoker next_line (snd (run e reg invoker cmdline d))
         = execute_as e' reg invoker next_line invoker
             (d\<lparr>sessions := (sessions d)(invoker := None)\<rparr>)
       \<and> sessions (snd (run e' reg invoker next_line (snd (run e reg invoker cmdline d))))
            invoker = None"
proof -
  let ?parts = "''sudo'' # ''-i'' # ''-u'' # target # tok # rest"
  let ?expires = "float_sum (float_round e) (now e) ttl"
  from assms(2) have ttl: "session_ttl e ?parts = ttl"
    by (simp add: session_ttl_def)
  from assms(3,4) have fa: "float_add_int (float_round e) (now e) ttl = Inr ?expires"
    by (simp add: float_add_int_def)
  have r: "run e reg invoker cmdline d
         = (Inr (''impersonating '' @ target @ '' for '' @ str_int ttl @ '' seconds''),
            d\<lparr>sessions := (sessions d)(invoker \<mapsto> (target, ?expires))\<rparr>)"
    using assms(5) by (simp add: run_sudo_i [OF assms(1) refl] ttl fa)
  have le: "?expires \<le> now e"
    using assms(3,9,10,11) by (rule float_sum_nonpositive)
  with assms(8) have "\<not> now e' < ?expires"
    by simp
  then have n: "run e' reg invoker next_line (snd (run e reg invoker cmdline d))
         = execute_as e' reg invoker next_line invoker
             (d\<lparr>sessions := (sessions d)(invoker := None)\<rparr>)"
    by (simp add: r run_plain [OF assms(6,7)])
  show ?thesis
    using r le n by (simp add: sessions_execute_as float_sum_def)
qed

text \<open>
  A witness: at time 1000 \<^verbatim>\<open>alice\<close> asks for a session of -5 seconds as \<^verbatim>\<open>bob\<close>; it
  expires at 995, and her \<^verbatim>\<open>whoami\<close> that follows is answered for \<^verbatim>\<open>alice\<close>.
\<close>

theorem nonpositive_ttl_witness:
  "shlex_split ''sudo -i -u bob -5'' = Inr [''sudo'', ''-i'', ''-u'', ''bob'', ''-5'']
   \<and> py_int (int_max_str_digits example_env) ''-5'' = Some (- 5)
   \<and> - float_max_int < - 5
   \<and> has_perm (users example_dispatcher) ''alice'' ''sudo''
   \<and> shlex_split ''whoami'' = Inr [''whoami'']
   \<and> mono (float_round example_env)
   \<and> float_round example_env 0 = 0
   \<and> float_round example_env (now example_env) = now example_env
   \<and> run example_env app_registry ''alice'' ''sudo -i -u bob -5'' example_dispatcher
     = (Inr ''impersonating bob for -5 seconds'',
        example_dispatcher\<lparr>sessions := [''alice'' \<mapsto> (''bob'', 995)]\<rparr>)
   \<and> run example_env app_registry ''alice'' ''whoami''
        (snd (run example_env app_registry ''alice'' ''sudo -i -u bob -5'' example_dispatcher))
     = (Inr ''you are alice'', example_dispatcher)"
proof -
  have sp: "shlex_split ''sudo -i -u bob -5'' = Inr [''sudo'', ''-i'', ''-u'', ''bob'', ''-5'']"
    and sp2: "shlex_split ''whoami'' = Inr [''whoami'']"
    by (simp_all add: lex_defs)
  have "py_int 4300 ''-5'' = Some (- 5)"
    by code_simp
  then have pi: "py_int (int_max_str_digits example_env) ''-5'' = Some (- 5)"
    by (simp add: example_env_def)
  have le: "(- 5 :: int) \<le> 0"
    by simp
  have b: "- float_max_int < - 5"
    by (simp add: float_max_int_def)
  have p: "has_perm (users example_dispatcher) ''alice'' ''sudo''"
    by (simp add: has_perm_def example_dispatcher_def example_users_def)
  have ne: "''whoami'' \<noteq> ''sudo''"
    by simp
  have s: "str_int (- 5) = ''-5''"
    by code_simp
  have m: "mono (float_round example_env)"
    and z: "float_round example_env 0 = 0"
    and fx: "float_round example_env (now example_env) = now example_env"
    by (simp_all add: example_env_def mono_def)
  have d1: "example_dispatcher\<lparr>sessions := (sessions example_dispatcher)
        (''alice'' \<mapsto> (''bob'',
           float_round example_env (now example_env + float_round example_env (of_int (- 5)))))\<rparr>
      = example_dispatcher\<lparr>sessions := [''alice'' \<mapsto> (''bob'', 995)]\<rparr>"
    by (simp add: example_dispatcher_def example_env_def)
  have d2: "example_dispatcher\<lparr>sessions := (sessions example_dispatcher)(''alice'' := None)\<rparr>
      = example_dispatcher"
    by (simp add: example_dispatcher_def)
  have ex: "execute_as example_env app_registry ''alice'' ''whoami'' ''alice'' example_dispatcher
      = (Inr ''you are alice'', example_dispatcher)"
    by (simp add: execute_as_def sp2 app_registry_eq call_handler_def cmd_whoami_def)
  note t = nonpositive_ttl [OF sp pi le b p sp2 ne order_refl m z fx, of app_registry]
  from t [THEN conjunct1]
  have r1: "run example_env app_registry ''alice'' ''sudo -i -u bob -5'' example_dispatcher
      = (Inr ''impersonating bob for -5 seconds'',
         example_dispatcher\<lparr>sessions := [''alice'' \<mapsto> (''bob'', 995)]\<rparr>)"
    unfolding d1 s by simp
  from t [THEN conjunct2, THEN conjunct2, THEN conjunct1]
  have r2: "run example_env app_registry ''alice'' ''whoami''
        (snd (run example_env app_registry ''alice'' ''sudo -i -u bob -5'' example_dispatcher))
      = (Inr ''you are alice'', example_dispatcher)"
    unfolding d2 ex .
  show ?thesis
    by (intro conjI sp pi b p sp2 m z fx r1 r2)
qed

text \<open>
  Claim C10 as stated (every integer \<open>ttl \<le> 0\<close>) fails when the time to live is too
  large in magnitude for a float: \<^verbatim>\<open>time.time() + ttl\<close> raises \<^verbatim>\<open>OverflowError\<close>, no
  session is installed and no confirmation is returned. Here the token is -1 followed
  by 400 zeros.
\<close>

theorem nonpositive_ttl_counterexample:
  "run example_env app_registry ''alice'' (''sudo -i -u bob -1'' @ replicate 400 CHR ''0'')
     example_dispatcher
   = (Inl (OverflowError ''int too large to convert to float''), example_dispatcher)"
proof -
  have sp: "shlex_split (''sudo -i -u bob -1'' @ replicate 400 CHR ''0'')
      = Inr [''sudo'', ''-i'', ''-u'', ''bob'', ''-1'' @ replicate 400 CHR ''0'']"
    by (simp add: lex_defs lex_zeros)
  have pi: "py_int 4300 (''-1'' @ replicate 400 CHR ''0'') = Some (- (10 ^ 400))"
    using py_int_digits(2) [of "''1'' @ replicate 400 CHR ''0''" 4300]
    by (simp add: digits_value_one_zeros is_digit_def list_all_iff)
  have ttl: "session_ttl example_env
       [''sudo'', ''-i'', ''-u'', ''bob'', ''-1'' @ replicate 400 CHR ''0''] = - (10 ^ 400)"
    using pi by (simp add: session_ttl_def example_env_def)
  have hp: "has_perm (users example_dispatcher) ''alice'' ''sudo''"
    by (simp add: has_perm_def example_dispatcher_def example_users_def)
  have f: "float_add_int (float_round example_env) (now example_env) (- (10 ^ 400))
      = Inl (OverflowError ''int too large to convert to float'')"
    using float_max_int_less by (simp add: float_add_int_def)
  show ?thesis
    unfolding run_sudo_i [OF sp refl] ttl f using hp by simp
qed

end
